theory Spec2Isabelle
  imports Main
begin

section \<open>Configuration parsing of the gateway (conf.c)\<close>

text \<open>
  A shallow embedding of \<^verbatim>\<open>src/conf.c\<close>. C strings are \<open>string\<close>s without their
  terminating NUL; a nullable \<^verbatim>\<open>char *\<close> is a \<open>string option\<close>, a C \<^verbatim>\<open>int\<close> is an
  \<open>int\<close> (no claim depends on overflow). The character classes are those of the C locale.
\<close>

subsection \<open>Character classes of \<^verbatim>\<open>ctype.h\<close>\<close>

definition isblank :: "char \<Rightarrow> bool" where
  "isblank c = (c = CHR '' '' \<or> c = CHR 0x09)"

definition isspace :: "char \<Rightarrow> bool" where
  "isspace c = (c = CHR '' '' \<or> (9 \<le> (of_char c :: nat) \<and> (of_char c :: nat) \<le> 13))"

definition isdigit :: "char \<Rightarrow> bool" where
  "isdigit c = (48 \<le> (of_char c :: nat) \<and> (of_char c :: nat) \<le> 57)"

definition tolower :: "char \<Rightarrow> char" where
  "tolower c = (if 65 \<le> (of_char c :: nat) \<and> (of_char c :: nat) \<le> 90
                then char_of ((of_char c :: nat) + 32) else c)"

text \<open>\<^verbatim>\<open>strcasecmp(a, b) == 0\<close>\<close>

definition strcasecmp_eq :: "string \<Rightarrow> string \<Rightarrow> bool" where
  "strcasecmp_eq a b = (map tolower a = map tolower b)"

subsection \<open>Opcodes and the keyword table\<close>

datatype OpCodes =
    oBadOption | oDaemon | oDebugLevel | oExternalInterface | oGatewayID | oDevID
  | oGatewayInterface | oGatewayAddress | oGatewayPort | oPortalServer | oPlatServer
  | oLogServer | oAuthServer | oServHostname | oServSSLAvailable | oServSSLPort
  | oServHTTPPort | oLogServPort | oServPath | oServLoginScriptPathFragment
  | oServPortalScriptPathFragment | oServMsgScriptPathFragment
  | oServPingScriptPathFragment | oServAuthScriptPathFragment | oHTTPDMaxConn
  | oHTTPDName | oHTTPDRealm | oHTTPDUsername | oHTTPDPassword | oClientTimeout
  | oCheckInterval | oAuthInterval | oWdctlSocket | oSyslogFacility | oFirewallRule
  | oFirewallRuleSet | oTrustedMACList | oHtmlMessageFile | oProxyPort

definition keywords_tab :: "(string \<times> OpCodes) list" where
  "keywords_tab =
    [(''daemon'', oDaemon),
     (''debuglevel'', oDebugLevel),
     (''externalinterface'', oExternalInterface),
     (''gatewayid'', oGatewayID),
     (''devid'', oDevID),
     (''gatewayinterface'', oGatewayInterface),
     (''gatewayaddress'', oGatewayAddress),
     (''gatewayport'', oGatewayPort),
     (''authserver'', oAuthServer),
     (''portalserver'', oPortalServer),
     (''platformserver'', oPlatServer),
     (''logserver'', oLogServer),
     (''httpdmaxconn'', oHTTPDMaxConn),
     (''httpdname'', oHTTPDName),
     (''httpdrealm'', oHTTPDRealm),
     (''httpdusername'', oHTTPDUsername),
     (''httpdpassword'', oHTTPDPassword),
     (''clienttimeout'', oClientTimeout),
     (''checkinterval'', oCheckInterval),
     (''authinterval'', oAuthInterval),
     (''syslogfacility'', oSyslogFacility),
     (''wdctlsocket'', oWdctlSocket),
     (''hostname'', oServHostname),
     (''sslavailable'', oServSSLAvailable),
     (''sslport'', oServSSLPort),
     (''httpport'', oServHTTPPort),
     (''logport'', oLogServPort),
     (''path'', oServPath),
     (''loginscriptpathfragment'', oServLoginScriptPathFragment),
     (''portalscriptpathfragment'', oServPortalScriptPathFragment),
     (''msgscriptpathfragment'', oServMsgScriptPathFragment),
     (''pingscriptpathfragment'', oServPingScriptPathFragment),
     (''authscriptpathfragment'', oServAuthScriptPathFragment),
     (''firewallruleset'', oFirewallRuleSet),
     (''firewallrule'', oFirewallRule),
     (''trustedmaclist'', oTrustedMACList),
     (''htmlmessagefile'', oHtmlMessageFile),
     (''proxyport'', oProxyPort)]"

text \<open>The \<^verbatim>\<open>for\<close> loop of \<^verbatim>\<open>config_parse_token\<close> over the table: the first entry whose
  name equals the token under \<^verbatim>\<open>strcasecmp\<close>.\<close>

fun keyword_lookup :: "(string \<times> OpCodes) list \<Rightarrow> string \<Rightarrow> OpCodes option" where
  "keyword_lookup [] cp = None"
| "keyword_lookup ((name, opcode) # ks) cp =
     (if strcasecmp_eq cp name then Some opcode else keyword_lookup ks cp)"

subsection \<open>The data model\<close>

datatype t_firewall_target =
  TARGET_DROP | TARGET_REJECT | TARGET_ACCEPT | TARGET_LOG | TARGET_ULOG

record t_firewall_rule =
  target :: t_firewall_target
  protocol :: "string option"
  port :: "string option"
  mask_r :: "string option"

text \<open>The singly linked lists of rules, of rulesets and of trusted MAC addresses only ever
  grow at their tail by freshly allocated nodes; they are lists here, and the tail walks of
  the source are the recursions below.\<close>

record t_firewall_ruleset =
  name :: string
  rules :: "t_firewall_rule list"

text \<open>Server entries are nodes of a store, since \<^verbatim>\<open>mark_auth_server_bad\<close> relinks them
  through their \<^verbatim>\<open>next\<close> pointers. A pointer is an address or \<open>None\<close> for \<^verbatim>\<open>NULL\<close>.\<close>

type_synonym addr = nat

record t_serv =
  serv_hostname :: "string option"
  last_ip :: "string option"
  serv_use_ssl :: int
  serv_http_port :: int
  serv_ssl_port :: int
  serv_path :: "string option"
  serv_login_script_path_fragment :: "string option"
  serv_portal_script_path_fragment :: "string option"
  serv_msg_script_path_fragment :: "string option"
  serv_ping_script_path_fragment :: "string option"
  serv_auth_script_path_fragment :: "string option"
  serv_update_script_path_fragment :: "string option"
  next_serv :: "addr option"

text \<open>The calls \<^verbatim>\<open>debug(LOG_ERR, ...)\<close> of the file, each with the arguments of its format
  but the file name. Calls at \<^verbatim>\<open>LOG_DEBUG\<close> and \<^verbatim>\<open>LOG_INFO\<close> are left out.\<close>

datatype msg =
    Bad_configuration_option int string
  | Bad_option_on_line int
  | Exiting
  | Invalid_rule_type string
  | Invalid_port string
  | Invalid_keyword string
  | Invalid_mask string
  | Could_not_open
  | Requires_password
  | Not_set string
  | Not_complete

text \<open>The static \<^verbatim>\<open>config\<close> of type \<^verbatim>\<open>s_config\<close>, followed by what else the functions
  read and write: the static flag \<^verbatim>\<open>missing_parms\<close>, the store of server nodes with the
  next address \<^verbatim>\<open>safe_malloc\<close> hands out, the messages logged so far, and the line counter
  that \<^verbatim>\<open>config_read\<close> passes to the block parsers by reference.\<close>

record state =
  configfile :: string
  htmlmsgfile :: "string option"
  debuglevel :: int
  httpdmaxconn :: int
  external_interface :: "string option"
  gw_id :: "string option"
  dev_id :: "string option"
  gw_mac :: "string option"
  gw_interface :: "string option"
  gw_address :: "string option"
  gw_port :: int
  auth_servers :: "addr option"
  portal_servers :: "addr option"
  plat_servers :: "addr option"
  update_servers :: "addr option"
  log_servers :: "addr option"
  httpdname :: "string option"
  httpdrealm :: "string option"
  httpdusername :: "string option"
  httpdpassword :: "string option"
  clienttimeout :: int
  checkinterval :: int
  authinterval :: int
  syslog_facility :: int
  daemon :: int
  log_syslog :: int
  wdctl_sock :: "string option"
  internal_sock :: "string option"
  rulesets :: "t_firewall_ruleset list"
  trustedmaclist :: "string list"
  proxy_port :: int
  missing_parms :: int
  heap :: "addr \<Rightarrow> t_serv"
  brk :: addr
  errlog :: "msg list"
  linenum :: int

definition debug :: "msg \<Rightarrow> state \<Rightarrow> state" where
  "debug m st = st\<lparr>errlog := errlog st @ [m]\<rparr>"

text \<open>How a call ends other than by returning: \<^verbatim>\<open>exit(code)\<close> with the messages logged
  until then, a loop that never ends, or a read through \<^verbatim>\<open>NULL\<close>.\<close>

datatype failure = Exited int "msg list" | NoReturn | NullDeref

subsection \<open>\<^verbatim>\<open>config_parse_token\<close>\<close>

definition config_parse_token :: "string \<Rightarrow> state \<Rightarrow> OpCodes \<times> state" where
  "config_parse_token cp st =
     (case keyword_lookup keywords_tab cp of
        Some opcode \<Rightarrow> (opcode, st)
      | None \<Rightarrow> (oBadOption, debug (Bad_configuration_option (linenum st) cp) st))"

subsection \<open>\<^verbatim>\<open>_parse_firewall_rule\<close>\<close>

text \<open>The word a pointer reads as once \<^verbatim>\<open>TO_NEXT_WORD\<close> has ended it with a NUL.\<close>

definition word_at :: "string \<Rightarrow> string" where
  "word_at s = takeWhile (\<lambda>c. \<not> isblank c) s"

text \<open>\<^verbatim>\<open>TO_NEXT_WORD(s, e)\<close>: the new \<^verbatim>\<open>s\<close> and \<^verbatim>\<open>e\<close>.\<close>

definition TO_NEXT_WORD :: "string \<Rightarrow> bool \<Rightarrow> string \<times> bool" where
  "TO_NEXT_WORD s e =
     (case dropWhile (\<lambda>c. \<not> isblank c) s of
        [] \<Rightarrow> ([], True)
      | b # r \<Rightarrow> (dropWhile isblank r, e))"

definition rule_target :: "string \<Rightarrow> bool \<Rightarrow> t_firewall_target option" where
  "rule_target token finished =
     (if strcasecmp_eq token ''block'' \<or> finished then Some TARGET_REJECT
      else if strcasecmp_eq token ''drop'' then Some TARGET_DROP
      else if strcasecmp_eq token ''allow'' then Some TARGET_ACCEPT
      else if strcasecmp_eq token ''log'' then Some TARGET_LOG
      else if strcasecmp_eq token ''ulog'' then Some TARGET_ULOG
      else None)"

text \<open>The optional part after the port: \<^verbatim>\<open>if (!finished) { ... }\<close> and the rule record.\<close>

definition rule_to_mask ::
  "t_firewall_target \<Rightarrow> string option \<Rightarrow> string option \<Rightarrow> string \<Rightarrow> bool
    \<Rightarrow> (int \<times> msg) + t_firewall_rule" where
  "rule_to_mask tg proto prt leftover finished =
     (if finished
      then Inr \<lparr>target = tg, protocol = proto, port = prt, mask_r = Some ''0.0.0.0/0''\<rparr>
      else
        let other_kw = word_at leftover;
            (leftover1, finished1) = TO_NEXT_WORD leftover finished
        in if (if other_kw = ''to'' then finished1 else True)
           then Inl (- 4, Invalid_keyword other_kw)
           else
             let mask = word_at leftover1 in
             if list_all (\<lambda>c. isdigit c \<or> c = CHR ''.'' \<or> c = CHR ''/'') mask
             then Inr \<lparr>target = tg, protocol = proto, port = prt, mask_r = Some mask\<rparr>
             else Inl (- 3, Invalid_mask mask))"

text \<open>The grammar of \<^verbatim>\<open>_parse_firewall_rule\<close>: the failure code with its message, or the
  rule record to append.\<close>

definition parse_rule :: "string \<Rightarrow> (int \<times> msg) + t_firewall_rule" where
  "parse_rule line =
     (let leftover = map tolower line;
          token = word_at leftover;
          (leftover1, finished1) = TO_NEXT_WORD leftover False
      in case rule_target token finished1 of
           None \<Rightarrow> Inl (- 1, Invalid_rule_type token)
         | Some tg \<Rightarrow>
             let (proto, leftover2, finished2) =
                   (if take 3 leftover1 = ''tcp'' \<or> take 3 leftover1 = ''udp''
                       \<or> take 4 leftover1 = ''icmp''
                    then (Some (word_at leftover1), TO_NEXT_WORD leftover1 finished1)
                    else (None, leftover1, finished1))
             in if take 4 leftover2 = ''port''
                then
                  let (leftover3, finished3) = TO_NEXT_WORD leftover2 finished2;
                      prt = word_at leftover3;
                      (leftover4, finished4) = TO_NEXT_WORD leftover3 finished3
                  in if list_all isdigit prt
                     then rule_to_mask tg proto (Some prt) leftover4 finished4
                     else Inl (- 3, Invalid_port prt)
                else rule_to_mask tg proto None leftover2 finished2)"

text \<open>Appending the rule: the ruleset of that name is searched from the head of
  \<^verbatim>\<open>config.rulesets\<close> and created at the tail when there is none; the rule goes to the
  tail of its rules.\<close>

fun append_rule ::
  "string \<Rightarrow> t_firewall_rule \<Rightarrow> t_firewall_ruleset list \<Rightarrow> t_firewall_ruleset list" where
  "append_rule ruleset tmp [] = [\<lparr>name = ruleset, rules = [tmp]\<rparr>]"
| "append_rule ruleset tmp (tmpr # rest) =
     (if name tmpr = ruleset then tmpr\<lparr>rules := rules tmpr @ [tmp]\<rparr> # rest
      else tmpr # append_rule ruleset tmp rest)"

definition parse_firewall_rule :: "string \<Rightarrow> string \<Rightarrow> state \<Rightarrow> int \<times> state" where
  "parse_firewall_rule ruleset leftover st =
     (case parse_rule leftover of
        Inl (code, m) \<Rightarrow> (code, debug m st)
      | Inr tmp \<Rightarrow> (1, st\<lparr>rulesets := append_rule ruleset tmp (rulesets st)\<rparr>))"

fun get_ruleset :: "t_firewall_ruleset list \<Rightarrow> string \<Rightarrow> t_firewall_rule list" where
  "get_ruleset [] ruleset = []"
| "get_ruleset (tmp # rest) ruleset =
     (if name tmp = ruleset then rules tmp else get_ruleset rest ruleset)"

subsection \<open>The line scanner of the block parsers\<close>

text \<open>The configuration file is the list of the lines that the successive calls of
  \<^verbatim>\<open>fgets\<close> deliver, each with its line terminator; lines are taken to fit the buffer
  of \<^verbatim>\<open>MAX_BUF\<close> bytes. \<^verbatim>\<open>parse_server\<close> and \<^verbatim>\<open>parse_firewall_ruleset\<close> scan a line with
  the same statements: skip the leading blanks, end the line at the first \<^verbatim>\<open>#\<close>, else at
  the first carriage return, else at the first newline, by a NUL written over that character,
  then split the first word off.\<close>

definition end_at_eol :: "string \<Rightarrow> string" where
  "end_at_eol p1 =
     (if CHR ''#'' \<in> set p1 then takeWhile (\<lambda>c. c \<noteq> CHR ''#'') p1
      else if CHR 0x0D \<in> set p1 then takeWhile (\<lambda>c. c \<noteq> CHR 0x0D) p1
      else if CHR 0x0A \<in> set p1 then takeWhile (\<lambda>c. c \<noteq> CHR 0x0A) p1
      else p1)"

definition block_p1 :: "string \<Rightarrow> string" where
  "block_p1 line = word_at (end_at_eol (dropWhile isblank line))"

text \<open>The rest \<^verbatim>\<open>p2\<close> of the line. After the first word the code writes a NUL, steps over
  it (\<^verbatim>\<open>*p2 = '\0'; p2++;\<close>) and skips blanks. When the word ends at a blank, \<^verbatim>\<open>p2\<close> is
  what follows up to the end written before. When the word runs up to that end, the step
  goes over the NUL written there: \<^verbatim>\<open>p2\<close> is then what the line holds after the \<^verbatim>\<open>#\<close> (or
  the carriage return) that was overwritten, its line terminator included; when nothing was
  overwritten, or the newline was, the step reaches the zeros that \<^verbatim>\<open>memset\<close> left and
  \<^verbatim>\<open>p2\<close> is empty.\<close>

definition block_p2 :: "string \<Rightarrow> string" where
  "block_p2 line =
     (case dropWhile (\<lambda>c. \<not> isblank c) (end_at_eol (dropWhile isblank line)) of
        b # r \<Rightarrow> dropWhile isblank r
      | [] \<Rightarrow>
          dropWhile isblank
            (drop (Suc (length (end_at_eol (dropWhile isblank line)))) (dropWhile isblank line)))"

subsection \<open>\<^verbatim>\<open>parse_firewall_ruleset\<close>\<close>

definition bad_option_exit :: "state \<Rightarrow> failure" where
  "bad_option_exit st = Exited (- 1) (errlog (debug Exiting (debug (Bad_option_on_line (linenum st)) st)))"

fun parse_firewall_ruleset ::
  "string \<Rightarrow> string list \<Rightarrow> state \<Rightarrow> failure + (string list \<times> state)" where
  "parse_firewall_ruleset ruleset [] st = Inr ([], st)"
| "parse_firewall_ruleset ruleset (line # file) st =
     (if CHR ''}'' \<in> set line then Inr (file, st)
      else
        let st1 = st\<lparr>linenum := linenum st + 1\<rparr> in
        if end_at_eol (dropWhile isblank line) = [] then parse_firewall_ruleset ruleset file st1
        else
          let (opcode, st2) = config_parse_token (block_p1 line) st1 in
          if opcode = oFirewallRule
          then parse_firewall_ruleset ruleset file
                 (snd (parse_firewall_rule ruleset (block_p2 line) st2))
          else Inl (bad_option_exit st2))"

subsection \<open>\<^verbatim>\<open>parse_boolean_value\<close> and the integer conversions\<close>

definition parse_boolean_value :: "string \<Rightarrow> int" where
  "parse_boolean_value line =
     (if strcasecmp_eq line ''yes'' then 1
      else if strcasecmp_eq line ''no'' then 0
      else if line = ''1'' then 1
      else if line = ''0'' then 0
      else - 1)"

text \<open>The conversion that \<^verbatim>\<open>sscanf(p, "%d", &x)\<close> and \<^verbatim>\<open>atoi(p)\<close> make: white space, an
  optional sign, decimal digits. A value outside the range of \<^verbatim>\<open>int\<close> is undefined in C and
  is the mathematical value here.\<close>

definition scan_int :: "string \<Rightarrow> int option" where
  "scan_int s =
     (let t = dropWhile isspace s;
          neg = (take 1 t = ''-'');
          u = (if take 1 t = ''-'' \<or> take 1 t = ''+'' then drop 1 t else t);
          ds = takeWhile isdigit u
      in if ds = [] then None
         else Some ((if neg then - 1 else 1) * foldl (\<lambda>a c. 10 * a + (int (of_char c) - 48)) 0 ds))"

definition sscanf_d :: "string \<Rightarrow> int \<Rightarrow> int" where
  "sscanf_d p old = (case scan_int p of None \<Rightarrow> old | Some v \<Rightarrow> v)"

definition atoi :: "string \<Rightarrow> int" where
  "atoi p = (case scan_int p of None \<Rightarrow> 0 | Some v \<Rightarrow> v)"

subsection \<open>\<^verbatim>\<open>parse_server\<close>\<close>

text \<open>The macros \<^verbatim>\<open>DEFAULT_...\<close> come from a header that is not part of the file; they are
  parameters.\<close>

record defaults =
  DEFAULT_CONFIGFILE :: string
  DEFAULT_HTMLMSGFILE :: string
  DEFAULT_DEBUGLEVEL :: int
  DEFAULT_HTTPDMAXCONN :: int
  DEFAULT_DEV :: string
  DEFAULT_GATEWAYPORT :: int
  DEFAULT_HTTPDNAME :: string
  DEFAULT_CLIENTTIMEOUT :: int
  DEFAULT_CHECKINTERVAL :: int
  DEFAULT_AUTHINTERVAL :: int
  DEFAULT_SYSLOG_FACILITY :: int
  DEFAULT_DAEMON :: int
  DEFAULT_LOG_SYSLOG :: int
  DEFAULT_WDCTL_SOCK :: string
  DEFAULT_INTERNAL_SOCK :: string
  DEFAULT_LOGSERVER :: string
  DEFAULT_UPDATESERVER :: string
  DEFAULT_UPDATESERVERPATH :: string
  DEFAULT_UPDATESERVERPATHFRAGMENT :: string
  DEFAULT_AUTHSERVPATH :: string
  DEFAULT_AUTHSERVLOGINPATHFRAGMENT :: string
  DEFAULT_AUTHSERVPORTALPATHFRAGMENT :: string
  DEFAULT_AUTHSERVMSGPATHFRAGMENT :: string
  DEFAULT_AUTHSERVPINGPATHFRAGMENT :: string
  DEFAULT_AUTHSERVAUTHPATHFRAGMENT :: string
  DEFAULT_AUTHSERVPORT :: int
  DEFAULT_AUTHSERVSSLPORT :: int
  DEFAULT_AUTHSERVSSLAVAILABLE :: int

text \<open>The local variables of \<^verbatim>\<open>parse_server\<close> that the lines of a block set.\<close>

record serv_locals =
  host :: "string option"
  path :: string
  loginscriptpathfragment :: string
  portalscriptpathfragment :: string
  msgscriptpathfragment :: string
  pingscriptpathfragment :: string
  authscriptpathfragment :: string
  http_port :: int
  ssl_port :: int
  ssl_available :: int

definition serv_defaults :: "defaults \<Rightarrow> serv_locals" where
  "serv_defaults d =
     \<lparr>host = None,
      path = DEFAULT_AUTHSERVPATH d,
      loginscriptpathfragment = DEFAULT_AUTHSERVLOGINPATHFRAGMENT d,
      portalscriptpathfragment = DEFAULT_AUTHSERVPORTALPATHFRAGMENT d,
      msgscriptpathfragment = DEFAULT_AUTHSERVMSGPATHFRAGMENT d,
      pingscriptpathfragment = DEFAULT_AUTHSERVPINGPATHFRAGMENT d,
      authscriptpathfragment = DEFAULT_AUTHSERVAUTHPATHFRAGMENT d,
      http_port = DEFAULT_AUTHSERVPORT d,
      ssl_port = DEFAULT_AUTHSERVSSLPORT d,
      ssl_available = DEFAULT_AUTHSERVSSLAVAILABLE d\<rparr>"

text \<open>The \<^verbatim>\<open>switch\<close> of the parsing loop; \<open>None\<close> is its \<^verbatim>\<open>default\<close> branch, which exits.\<close>

definition server_option :: "OpCodes \<Rightarrow> string \<Rightarrow> serv_locals \<Rightarrow> serv_locals option" where
  "server_option opcode p2 v =
     (case opcode of
        oServHostname \<Rightarrow> Some (v\<lparr>host := Some p2\<rparr>)
      | oServPath \<Rightarrow> Some (v\<lparr>path := p2\<rparr>)
      | oServLoginScriptPathFragment \<Rightarrow> Some (v\<lparr>loginscriptpathfragment := p2\<rparr>)
      | oServPortalScriptPathFragment \<Rightarrow> Some (v\<lparr>portalscriptpathfragment := p2\<rparr>)
      | oServMsgScriptPathFragment \<Rightarrow> Some (v\<lparr>msgscriptpathfragment := p2\<rparr>)
      | oServPingScriptPathFragment \<Rightarrow> Some (v\<lparr>pingscriptpathfragment := p2\<rparr>)
      | oServAuthScriptPathFragment \<Rightarrow> Some (v\<lparr>authscriptpathfragment := p2\<rparr>)
      | oServSSLPort \<Rightarrow> Some (v\<lparr>ssl_port := atoi p2\<rparr>)
      | oServHTTPPort \<Rightarrow> Some (v\<lparr>http_port := atoi p2\<rparr>)
      | oLogServPort \<Rightarrow> Some v
      | oServSSLAvailable \<Rightarrow>
          Some (v\<lparr>ssl_available :=
                  (if parse_boolean_value p2 < 0 then 0 else parse_boolean_value p2)\<rparr>)
      | _ \<Rightarrow> None)"

fun parse_server_loop ::
  "string list \<Rightarrow> serv_locals \<Rightarrow> state \<Rightarrow> failure + (string list \<times> serv_locals \<times> state)" where
  "parse_server_loop [] v st = Inr ([], v, st)"
| "parse_server_loop (line # file) v st =
     (if CHR ''}'' \<in> set line then Inr (file, v, st)
      else
        let st1 = st\<lparr>linenum := linenum st + 1\<rparr> in
        if end_at_eol (dropWhile isblank line) = [] then parse_server_loop file v st1
        else
          let (opcode, st2) = config_parse_token (block_p1 line) st1 in
          case server_option opcode (block_p2 line) v of
            None \<Rightarrow> Inl (bad_option_exit st2)
          | Some v' \<Rightarrow> parse_server_loop file v' st2)"

text \<open>The walk \<^verbatim>\<open>for (tmp = head; tmp->next != NULL; tmp = tmp->next);\<close> to the last node.
  On a list that runs into a cycle it does not end: the value is \<open>None\<close>.\<close>

partial_function (option) serv_last :: "(addr \<Rightarrow> t_serv) \<Rightarrow> addr \<Rightarrow> addr option" where
  "serv_last h tmp =
     (case next_serv (h tmp) of None \<Rightarrow> Some tmp | Some n \<Rightarrow> serv_last h n)"

declare serv_last.simps [code]

text \<open>Appending the node \<open>new\<close> to the list that starts at \<open>head\<close>: the new head and store.\<close>

definition append_serv ::
  "addr option \<Rightarrow> addr \<Rightarrow> (addr \<Rightarrow> t_serv) \<Rightarrow> (addr option \<times> (addr \<Rightarrow> t_serv)) option" where
  "append_serv head new h =
     (case head of
        None \<Rightarrow> Some (Some new, h)
      | Some first \<Rightarrow>
          (case serv_last h first of
             None \<Rightarrow> None
           | Some tmp \<Rightarrow> Some (head, h(tmp := (h tmp)\<lparr>next_serv := Some new\<rparr>))))"

text \<open>\<^verbatim>\<open>wd_gethostbyname\<close> followed by \<^verbatim>\<open>inet_ntoa\<close> is the parameter \<open>dns\<close>: the address of
  a host name in dotted notation, if it resolves.\<close>

definition resolve_last_ip :: "(string \<Rightarrow> string option) \<Rightarrow> string \<Rightarrow> t_serv \<Rightarrow> t_serv" where
  "resolve_last_ip dns h new =
     (case dns h of
        None \<Rightarrow> new
      | Some ip \<Rightarrow>
          (if last_ip new = None \<or> last_ip new \<noteq> Some ip then new\<lparr>last_ip := Some ip\<rparr>
           else new))"

definition zero_serv :: t_serv where
  "zero_serv =
     \<lparr>serv_hostname = None, last_ip = None, serv_use_ssl = 0, serv_http_port = 0,
      serv_ssl_port = 0, serv_path = None, serv_login_script_path_fragment = None,
      serv_portal_script_path_fragment = None, serv_msg_script_path_fragment = None,
      serv_ping_script_path_fragment = None, serv_auth_script_path_fragment = None,
      serv_update_script_path_fragment = None, next_serv = None\<rparr>"

definition new_serv :: "string \<Rightarrow> serv_locals \<Rightarrow> t_serv" where
  "new_serv h v =
     zero_serv
       \<lparr>serv_hostname := Some h,
        serv_use_ssl := ssl_available v,
        serv_path := Some (path v),
        serv_login_script_path_fragment := Some (loginscriptpathfragment v),
        serv_portal_script_path_fragment := Some (portalscriptpathfragment v),
        serv_msg_script_path_fragment := Some (msgscriptpathfragment v),
        serv_ping_script_path_fragment := Some (pingscriptpathfragment v),
        serv_auth_script_path_fragment := Some (authscriptpathfragment v),
        serv_http_port := http_port v,
        serv_ssl_port := ssl_port v\<rparr>"

text \<open>\<^verbatim>\<open>safe_malloc\<close> hands out the address \<open>brk\<close>, which no list reaches yet.\<close>

definition safe_malloc :: "t_serv \<Rightarrow> state \<Rightarrow> addr \<times> state" where
  "safe_malloc node st = (brk st, st\<lparr>heap := (heap st)(brk st := node), brk := Suc (brk st)\<rparr>)"

text \<open>The end of \<^verbatim>\<open>parse_server\<close>, once a host name is known: the new node is
  allocated and filled, then linked to the list that \<^verbatim>\<open>type\<close> selects.\<close>

definition add_server ::
  "(string \<Rightarrow> string option) \<Rightarrow> int \<Rightarrow> string \<Rightarrow> serv_locals \<Rightarrow> state \<Rightarrow> failure + state" where
  "add_server dns type h v st =
     (if type = 1 then
        let (new, st1) = safe_malloc (new_serv h v) st in
        (case append_serv (auth_servers st1) new (heap st1) of
           None \<Rightarrow> Inl NoReturn
         | Some (head, hp) \<Rightarrow> Inr (st1\<lparr>auth_servers := head, heap := hp\<rparr>))
      else if type = 2 then
        let (new, st1) = safe_malloc (resolve_last_ip dns h (new_serv h v)) st in
        (case append_serv (portal_servers st1) new (heap st1) of
           None \<Rightarrow> Inl NoReturn
         | Some (head, hp) \<Rightarrow> Inr (st1\<lparr>portal_servers := head, heap := hp\<rparr>))
      else if type = 3 then
        let (new, st1) = safe_malloc (resolve_last_ip dns h (new_serv h v)) st in
        (case append_serv (plat_servers st1) new (heap st1) of
           None \<Rightarrow> Inl NoReturn
         | Some (head, hp) \<Rightarrow> Inr (st1\<lparr>plat_servers := head, heap := hp\<rparr>))
      else
        let (new, st1) = safe_malloc (new_serv h v) st in
        Inr (debug Exiting (debug (Bad_option_on_line (linenum st1)) st1)))"

definition parse_server ::
  "(string \<Rightarrow> string option) \<Rightarrow> defaults \<Rightarrow> int \<Rightarrow> string list \<Rightarrow> state
    \<Rightarrow> failure + (string list \<times> state)" where
  "parse_server dns d type file st =
     (case parse_server_loop file (serv_defaults d) st of
        Inl f \<Rightarrow> Inl f
      | Inr (file', v, st') \<Rightarrow>
          (case host v of
             None \<Rightarrow> Inr (file', st')
           | Some h \<Rightarrow>
               (case add_server dns type h v st' of
                  Inl f \<Rightarrow> Inl f
                | Inr st'' \<Rightarrow> Inr (file', st''))))"

subsection \<open>\<^verbatim>\<open>parse_trusted_mac_list\<close>\<close>

text \<open>The tokens that the repeated \<^verbatim>\<open>strsep(&ptrcopy, ", ")\<close> returns: the string cut at
  every comma and every space, empty tokens included.\<close>

fun strsep_tokens :: "string \<Rightarrow> string list" where
  "strsep_tokens [] = [[]]"
| "strsep_tokens (c # cs) =
     (if c = CHR '','' \<or> c = CHR '' '' then [] # strsep_tokens cs
      else (case strsep_tokens cs of [] \<Rightarrow> [[c]] | t # ts \<Rightarrow> (c # t) # ts))"

definition ismacchar :: "char \<Rightarrow> bool" where
  "ismacchar c =
     ((65 \<le> (of_char c :: nat) \<and> (of_char c :: nat) \<le> 70)
      \<or> (97 \<le> (of_char c :: nat) \<and> (of_char c :: nat) \<le> 102)
      \<or> isdigit c \<or> c = CHR '':'')"

text \<open>\<^verbatim>\<open>sscanf(possiblemac, " %17[A-Fa-f0-9:]", mac) == 1\<close> and the \<^verbatim>\<open>mac\<close> it stores.\<close>

definition scan_mac :: "string \<Rightarrow> string option" where
  "scan_mac possiblemac =
     (let mac = take 17 (takeWhile ismacchar (dropWhile isspace possiblemac))
      in if mac = [] then None else Some mac)"

text \<open>The \<^verbatim>\<open>while (p->next != NULL)\<close> loop: \<open>p\<close> is the head of the list walked, the flag is
  \<^verbatim>\<open>skipmac\<close>.\<close>

fun skipmac_walk :: "string \<Rightarrow> string list \<Rightarrow> bool \<Rightarrow> bool" where
  "skipmac_walk mac (p # q # rest) skipmac =
     skipmac_walk mac (q # rest) (if p = mac then True else skipmac)"
| "skipmac_walk mac ps skipmac = skipmac"

definition add_trusted_mac :: "string \<Rightarrow> string list \<Rightarrow> string list" where
  "add_trusted_mac mac l =
     (case l of
        [] \<Rightarrow> [mac]
      | p # rest \<Rightarrow> if skipmac_walk mac l (p = mac) then l else l @ [mac])"

definition parse_trusted_mac_list :: "string \<Rightarrow> state \<Rightarrow> state" where
  "parse_trusted_mac_list ptr st =
     st\<lparr>trustedmaclist :=
          foldl (\<lambda>l possiblemac.
                   case scan_mac possiblemac of None \<Rightarrow> l | Some mac \<Rightarrow> add_trusted_mac mac l)
            (trustedmaclist st) (strsep_tokens ptr)\<rparr>"

subsection \<open>\<^verbatim>\<open>config_read\<close>\<close>

text \<open>The prefix of a string before its first \<^verbatim>\<open>"\r\n"\<close>, as \<^verbatim>\<open>strstr\<close> finds it.\<close>

fun before_crlf :: "string \<Rightarrow> string option" where
  "before_crlf (c # d # cs) =
     (if c = CHR 0x0D \<and> d = CHR 0x0A then Some []
      else map_option ((#) c) (before_crlf (d # cs)))"
| "before_crlf cs = None"

text \<open>The token \<^verbatim>\<open>s\<close> of a line of the top level: the trailing newline is dropped and the
  line is cut at its first space, or at its first tab when it has no space.\<close>

definition strip_newline :: "string \<Rightarrow> string" where
  "strip_newline s = (if s \<noteq> [] \<and> last s = CHR 0x0A then butlast s else s)"

definition top_s :: "string \<Rightarrow> string" where
  "top_s line =
     (let s = strip_newline line
      in if CHR '' '' \<in> set s then takeWhile (\<lambda>c. c \<noteq> CHR '' '') s
         else if CHR 0x09 \<in> set s then takeWhile (\<lambda>c. c \<noteq> CHR 0x09) s
         else s)"

text \<open>The value \<^verbatim>\<open>p1\<close> of the line, \<open>None\<close> for \<^verbatim>\<open>NULL\<close>: what follows the cut, without
  its leading spaces, up to the next space, else up to \<^verbatim>\<open>"\r\n"\<close>, else up to a newline.\<close>

definition end_value :: "string \<Rightarrow> string" where
  "end_value p1 =
     (if CHR '' '' \<in> set p1 then takeWhile (\<lambda>c. c \<noteq> CHR '' '') p1
      else (case before_crlf p1 of
              Some v \<Rightarrow> v
            | None \<Rightarrow>
                if CHR 0x0A \<in> set p1 then takeWhile (\<lambda>c. c \<noteq> CHR 0x0A) p1 else p1))"

definition top_p1 :: "string \<Rightarrow> string option" where
  "top_p1 line =
     (let s = strip_newline line
      in if CHR '' '' \<in> set s
         then Some (end_value (dropWhile (\<lambda>c. c = CHR '' '')
                      (drop 1 (dropWhile (\<lambda>c. c \<noteq> CHR '' '') s))))
         else if CHR 0x09 \<in> set s
         then Some (end_value (dropWhile (\<lambda>c. c = CHR '' '')
                      (drop 1 (dropWhile (\<lambda>c. c \<noteq> CHR 0x09) s))))
         else None)"

text \<open>The branches of the \<^verbatim>\<open>switch\<close> that neither read further lines nor exit. The
  \<^verbatim>\<open>switch\<close> has no \<^verbatim>\<open>default\<close>: an opcode without a branch does nothing.\<close>

definition config_option :: "OpCodes \<Rightarrow> string \<Rightarrow> state \<Rightarrow> state" where
  "config_option opcode p1 st =
     (case opcode of
        oDaemon \<Rightarrow>
          (if daemon st = - 1 \<and> parse_boolean_value p1 \<noteq> - 1
           then st\<lparr>daemon := parse_boolean_value p1\<rparr> else st)
      | oExternalInterface \<Rightarrow> st\<lparr>external_interface := Some p1\<rparr>
      | oGatewayID \<Rightarrow> st\<lparr>gw_id := Some p1\<rparr>
      | oDevID \<Rightarrow> st\<lparr>dev_id := Some p1\<rparr>
      | oGatewayInterface \<Rightarrow> st\<lparr>gw_interface := Some p1\<rparr>
      | oGatewayAddress \<Rightarrow> st\<lparr>gw_address := Some p1\<rparr>
      | oGatewayPort \<Rightarrow> st\<lparr>gw_port := sscanf_d p1 (gw_port st)\<rparr>
      | oLogServer \<Rightarrow> st
      | oTrustedMACList \<Rightarrow> parse_trusted_mac_list p1 st
      | oHTTPDName \<Rightarrow> st\<lparr>httpdname := Some p1\<rparr>
      | oHTTPDMaxConn \<Rightarrow> st\<lparr>httpdmaxconn := sscanf_d p1 (httpdmaxconn st)\<rparr>
      | oHTTPDRealm \<Rightarrow> st\<lparr>httpdrealm := Some p1\<rparr>
      | oHTTPDUsername \<Rightarrow> st\<lparr>httpdusername := Some p1\<rparr>
      | oHTTPDPassword \<Rightarrow> st\<lparr>httpdpassword := Some p1\<rparr>
      | oCheckInterval \<Rightarrow> st\<lparr>checkinterval := sscanf_d p1 (checkinterval st)\<rparr>
      | oAuthInterval \<Rightarrow> st\<lparr>authinterval := sscanf_d p1 (authinterval st)\<rparr>
      | oWdctlSocket \<Rightarrow> st\<lparr>wdctl_sock := Some p1\<rparr>
      | oClientTimeout \<Rightarrow> st\<lparr>clienttimeout := sscanf_d p1 (clienttimeout st)\<rparr>
      | oSyslogFacility \<Rightarrow> st\<lparr>syslog_facility := sscanf_d p1 (syslog_facility st)\<rparr>
      | oHtmlMessageFile \<Rightarrow> st\<lparr>htmlmsgfile := Some p1\<rparr>
      | oProxyPort \<Rightarrow> st\<lparr>proxy_port := sscanf_d p1 (proxy_port st)\<rparr>
      | _ \<Rightarrow> st)"

text \<open>The block parsers hand back the lines they did not read; the loop of
  \<^verbatim>\<open>config_read\<close> goes on from there, so it ends because they never lengthen the file.\<close>

lemma parse_firewall_ruleset_length:
  "parse_firewall_ruleset ruleset fd st = Inr (fd', st') \<Longrightarrow> length fd' \<le> length fd"
proof (induction fd arbitrary: st)
  case Nil
  then show ?case by simp
next
  case (Cons line fd)
  then show ?case
    by (fastforce simp: Let_def split: if_splits prod.splits)
qed

lemma parse_server_loop_length:
  "parse_server_loop fd v st = Inr (fd', v', st') \<Longrightarrow> length fd' \<le> length fd"
proof (induction fd arbitrary: v st)
  case Nil
  then show ?case by simp
next
  case (Cons line fd)
  then show ?case
    by (fastforce simp: Let_def split: if_splits prod.splits option.splits)
qed

lemma parse_server_length:
  "parse_server dns d type fd st = Inr (fd', st') \<Longrightarrow> length fd' \<le> length fd"
  unfolding parse_server_def
  by (auto split: sum.splits option.splits dest: parse_server_loop_length)

text \<open>The \<^verbatim>\<open>while\<close> loop of \<^verbatim>\<open>config_read\<close>. A line is dispatched when
  \<^verbatim>\<open>p1 && p1[0] != '\0'\<close> and \<^verbatim>\<open>s\<close> does not start with \<^verbatim>\<open>#\<close>.\<close>

function config_read_loop ::
  "(string \<Rightarrow> string option) \<Rightarrow> defaults \<Rightarrow> string list \<Rightarrow> state \<Rightarrow> failure + state" where
  "config_read_loop dns d [] st = Inr st"
| "config_read_loop dns d (line # file) st =
     (let st1 = st\<lparr>linenum := linenum st + 1\<rparr> in
      case top_p1 line of
        None \<Rightarrow> config_read_loop dns d file st1
      | Some p1 \<Rightarrow>
          if p1 = [] then config_read_loop dns d file st1
          else if take 1 (top_s line) = ''#'' then config_read_loop dns d file st1
          else
            let (opcode, st2) = config_parse_token (top_s line) st1
            in if opcode = oAuthServer then
                 (case parse_server dns d 1 file st2 of
                    Inl f \<Rightarrow> Inl f
                  | Inr (file', st3) \<Rightarrow> config_read_loop dns d file' st3)
               else if opcode = oPortalServer then
                 (case parse_server dns d 2 file st2 of
                    Inl f \<Rightarrow> Inl f
                  | Inr (file', st3) \<Rightarrow> config_read_loop dns d file' st3)
               else if opcode = oPlatServer then
                 (case parse_server dns d 3 file st2 of
                    Inl f \<Rightarrow> Inl f
                  | Inr (file', st3) \<Rightarrow> config_read_loop dns d file' st3)
               else if opcode = oFirewallRuleSet then
                 (case parse_firewall_ruleset p1 file st2 of
                    Inl f \<Rightarrow> Inl f
                  | Inr (file', st3) \<Rightarrow> config_read_loop dns d file' st3)
               else if opcode = oBadOption then Inl (bad_option_exit st2)
               else config_read_loop dns d file (config_option opcode p1 st2))"
  by pat_completeness auto
termination
proof (relation "measure (\<lambda>(dns, d, fd, st). length fd)")
  show "wf (measure (\<lambda>(dns, d, fd, st). length fd))" by simp
qed (auto dest: parse_server_length parse_firewall_ruleset_length)

text \<open>\<^verbatim>\<open>config_read\<close>: the file is \<open>None\<close> when \<^verbatim>\<open>fopen\<close> fails.\<close>

definition config_read ::
  "(string \<Rightarrow> string option) \<Rightarrow> defaults \<Rightarrow> string list option \<Rightarrow> state \<Rightarrow> failure + state" where
  "config_read dns d fd st =
     (case fd of
        None \<Rightarrow> Inl (Exited 1 (errlog (debug Could_not_open st)))
      | Some file \<Rightarrow>
          (case config_read_loop dns d file (st\<lparr>linenum := 0\<rparr>) of
             Inl f \<Rightarrow> Inl f
           | Inr st' \<Rightarrow>
               if httpdusername st' \<noteq> None \<and> httpdpassword st' = None
               then Inl (Exited (- 1) (errlog (debug Requires_password st')))
               else Inr st'))"

subsection \<open>\<^verbatim>\<open>config_validate\<close>\<close>

text \<open>\<^verbatim>\<open>config_notnull\<close>; the first argument says whether the parameter is \<^verbatim>\<open>NULL\<close>.\<close>

definition config_notnull :: "bool \<Rightarrow> string \<Rightarrow> state \<Rightarrow> state" where
  "config_notnull parm_null parmname st =
     (if parm_null then (debug (Not_set parmname) st)\<lparr>missing_parms := 1\<rparr> else st)"

definition config_validate :: "state \<Rightarrow> failure + state" where
  "config_validate st =
     (let st1 = config_notnull (gw_interface st = None) ''GatewayInterface'' st;
          st2 = config_notnull (auth_servers st1 = None) ''AuthServer'' st1
      in if missing_parms st2 \<noteq> 0
         then Inl (Exited (- 1) (errlog (debug Not_complete st2)))
         else Inr st2)"

subsection \<open>Initialisation, accessors and \<^verbatim>\<open>mark_auth_server_bad\<close>\<close>

text \<open>The statics before \<^verbatim>\<open>config_init\<close>: zero everywhere, an empty store, nothing logged.\<close>

definition static_state :: state where
  "static_state =
     \<lparr>configfile = [], htmlmsgfile = None, debuglevel = 0, httpdmaxconn = 0,
      external_interface = None, gw_id = None, dev_id = None, gw_mac = None,
      gw_interface = None, gw_address = None, gw_port = 0, auth_servers = None,
      portal_servers = None, plat_servers = None, update_servers = None, log_servers = None,
      httpdname = None, httpdrealm = None, httpdusername = None, httpdpassword = None,
      clienttimeout = 0, checkinterval = 0, authinterval = 0, syslog_facility = 0,
      daemon = 0, log_syslog = 0, wdctl_sock = None, internal_sock = None,
      rulesets = [], trustedmaclist = [], proxy_port = 0, missing_parms = 0,
      heap = (\<lambda>a. zero_serv), brk = 0, errlog = [], linenum = 0\<rparr>"

definition config_update_server_init :: "defaults \<Rightarrow> state \<Rightarrow> state" where
  "config_update_server_init d st =
     (let (new, st1) =
            safe_malloc
              (zero_serv
                 \<lparr>serv_hostname := Some (DEFAULT_UPDATESERVER d),
                  serv_path := Some (DEFAULT_UPDATESERVERPATH d),
                  serv_login_script_path_fragment := Some (DEFAULT_AUTHSERVLOGINPATHFRAGMENT d),
                  serv_portal_script_path_fragment := Some (DEFAULT_AUTHSERVPORTALPATHFRAGMENT d),
                  serv_msg_script_path_fragment := Some (DEFAULT_AUTHSERVMSGPATHFRAGMENT d),
                  serv_ping_script_path_fragment := Some (DEFAULT_AUTHSERVPINGPATHFRAGMENT d),
                  serv_auth_script_path_fragment := Some (DEFAULT_AUTHSERVAUTHPATHFRAGMENT d),
                  serv_update_script_path_fragment := Some (DEFAULT_UPDATESERVERPATHFRAGMENT d),
                  serv_http_port := DEFAULT_AUTHSERVPORT d,
                  serv_ssl_port := DEFAULT_AUTHSERVSSLPORT d,
                  serv_use_ssl := DEFAULT_AUTHSERVSSLAVAILABLE d\<rparr>) st
      in if update_servers st1 = None then st1\<lparr>update_servers := Some new\<rparr> else st1)"

definition config_init :: "defaults \<Rightarrow> state \<Rightarrow> state" where
  "config_init d st =
     (let st0 =
            st\<lparr>configfile := DEFAULT_CONFIGFILE d,
               htmlmsgfile := Some (DEFAULT_HTMLMSGFILE d),
               debuglevel := DEFAULT_DEBUGLEVEL d,
               httpdmaxconn := DEFAULT_HTTPDMAXCONN d,
               external_interface := None,
               dev_id := Some (DEFAULT_DEV d),
               gw_mac := None,
               gw_interface := None,
               gw_address := None,
               gw_port := DEFAULT_GATEWAYPORT d,
               auth_servers := None,
               httpdname := None,
               portal_servers := None,
               plat_servers := None,
               update_servers := None,
               httpdrealm := Some (DEFAULT_HTTPDNAME d),
               httpdusername := None,
               httpdpassword := None,
               clienttimeout := DEFAULT_CLIENTTIMEOUT d,
               checkinterval := DEFAULT_CHECKINTERVAL d,
               authinterval := DEFAULT_AUTHINTERVAL d,
               syslog_facility := DEFAULT_SYSLOG_FACILITY d,
               daemon := - 1,
               log_syslog := DEFAULT_LOG_SYSLOG d,
               wdctl_sock := Some (DEFAULT_WDCTL_SOCK d),
               internal_sock := Some (DEFAULT_INTERNAL_SOCK d),
               rulesets := [],
               trustedmaclist := [],
               proxy_port := 0\<rparr>;
          (new, st1) =
            safe_malloc
              (new_serv (DEFAULT_LOGSERVER d) (serv_defaults d)) st0;
          st2 = (if log_servers st1 = None then st1\<lparr>log_servers := Some new\<rparr> else st1)
      in config_update_server_init d st2)"

definition config_init_override :: "defaults \<Rightarrow> state \<Rightarrow> state" where
  "config_init_override d st = (if daemon st = - 1 then st\<lparr>daemon := DEFAULT_DAEMON d\<rparr> else st)"

definition get_auth_server :: "state \<Rightarrow> addr option" where
  "get_auth_server st = auth_servers st"

text \<open>\<^verbatim>\<open>mark_auth_server_bad\<close>. The condition reads \<^verbatim>\<open>bad_server->next\<close> only when the
  argument equals the head, so through \<^verbatim>\<open>NULL\<close> only when both are \<^verbatim>\<open>NULL\<close>.\<close>

definition mark_auth_server_bad :: "addr option \<Rightarrow> state \<Rightarrow> failure + state" where
  "mark_auth_server_bad bad_server st =
     (if auth_servers st = bad_server then
        (case bad_server of
           None \<Rightarrow> Inl NullDeref
         | Some bad \<Rightarrow>
             if next_serv (heap st bad) \<noteq> None then
               (case serv_last (heap st) bad of
                  None \<Rightarrow> Inl NoReturn
                | Some tmp \<Rightarrow>
                    let h1 = (heap st)(tmp := (heap st tmp)\<lparr>next_serv := Some bad\<rparr>);
                        head = next_serv (h1 bad);
                        h2 = h1(tmp := (h1 tmp)\<lparr>next_serv := None\<rparr>)
                    in Inr (st\<lparr>auth_servers := head, heap := h2\<rparr>))
             else Inr st)
      else Inr st)"

text \<open>The host names along a list of servers, for at most \<open>n\<close> nodes.\<close>

fun serv_hostnames :: "nat \<Rightarrow> (addr \<Rightarrow> t_serv) \<Rightarrow> addr option \<Rightarrow> string option list" where
  "serv_hostnames 0 h p = []"
| "serv_hostnames (Suc n) h None = []"
| "serv_hostnames (Suc n) h (Some a) = serv_hostname (h a) # serv_hostnames n h (next_serv (h a))"

subsection \<open>A concrete setting to run the functions in\<close>

text \<open>Values for the macros, a resolver that knows one host, and the state in which the
  daemon calls \<^verbatim>\<open>config_read\<close>: the statics after \<^verbatim>\<open>config_init\<close>.\<close>

definition sample_defaults :: defaults where
  "sample_defaults =
     \<lparr>DEFAULT_CONFIGFILE = ''/etc/wifidog.conf'',
      DEFAULT_HTMLMSGFILE = ''/etc/wifidog-msg.html'',
      DEFAULT_DEBUGLEVEL = 7,
      DEFAULT_HTTPDMAXCONN = 10,
      DEFAULT_DEV = ''dev'',
      DEFAULT_GATEWAYPORT = 2060,
      DEFAULT_HTTPDNAME = ''WiFiDog'',
      DEFAULT_CLIENTTIMEOUT = 5,
      DEFAULT_CHECKINTERVAL = 60,
      DEFAULT_AUTHINTERVAL = 60,
      DEFAULT_SYSLOG_FACILITY = 24,
      DEFAULT_DAEMON = 1,
      DEFAULT_LOG_SYSLOG = 0,
      DEFAULT_WDCTL_SOCK = ''/tmp/wdctl.sock'',
      DEFAULT_INTERNAL_SOCK = ''/tmp/wifidog.sock'',
      DEFAULT_LOGSERVER = ''log.example.org'',
      DEFAULT_UPDATESERVER = ''update.example.org'',
      DEFAULT_UPDATESERVERPATH = ''/'',
      DEFAULT_UPDATESERVERPATHFRAGMENT = ''update/?'',
      DEFAULT_AUTHSERVPATH = ''/wifidog/'',
      DEFAULT_AUTHSERVLOGINPATHFRAGMENT = ''login/?'',
      DEFAULT_AUTHSERVPORTALPATHFRAGMENT = ''portal/?'',
      DEFAULT_AUTHSERVMSGPATHFRAGMENT = ''gw_message.php?'',
      DEFAULT_AUTHSERVPINGPATHFRAGMENT = ''ping/?'',
      DEFAULT_AUTHSERVAUTHPATHFRAGMENT = ''auth/?'',
      DEFAULT_AUTHSERVPORT = 80,
      DEFAULT_AUTHSERVSSLPORT = 443,
      DEFAULT_AUTHSERVSSLAVAILABLE = 0\<rparr>"

definition sample_dns :: "string \<Rightarrow> string option" where
  "sample_dns h = (if h = ''portal.example.org'' then Some ''192.0.2.7'' else None)"

definition booted :: state where
  "booted = config_init sample_defaults static_state"

text \<open>A line of a file, with its newline.\<close>

definition ln :: "string \<Rightarrow> string" where
  "ln s = s @ [CHR 0x0A]"

subsection \<open>Notions that the properties use\<close>

text \<open>An interior line of a server block that neither ends the block nor sets the host
  name: a line that is empty once blanks and comment are taken off, or a line whose first
  word is one of the other directives that \<^verbatim>\<open>parse_server\<close> accepts.\<close>

definition sets_no_hostname :: "string \<Rightarrow> bool" where
  "sets_no_hostname line =
     (CHR ''}'' \<notin> set line
      \<and> (end_at_eol (dropWhile isblank line) = []
         \<or> keyword_lookup keywords_tab (block_p1 line)
             \<in> Some ` {oServPath, oServLoginScriptPathFragment, oServPortalScriptPathFragment,
                  oServMsgScriptPathFragment, oServPingScriptPathFragment,
                  oServAuthScriptPathFragment, oServSSLPort, oServHTTPPort, oLogServPort,
                  oServSSLAvailable}))"

text \<open>The rules of the lines of a ruleset block that parse, in the order of the lines, up
  to the line that closes the block: the parsed rules of the block in their order of
  appearance.\<close>

fun block_rules :: "string list \<Rightarrow> t_firewall_rule list" where
  "block_rules [] = []"
| "block_rules (line # fd) =
     (if CHR ''}'' \<in> set line then []
      else if end_at_eol (dropWhile isblank line) = [] then block_rules fd
      else (case parse_rule (block_p2 line) of
              Inl e \<Rightarrow> block_rules fd
            | Inr r \<Rightarrow> r # block_rules fd))"

text \<open>The list of servers that starts at a pointer visits exactly these nodes, in this
  order, and ends with \<^verbatim>\<open>NULL\<close>.\<close>

fun serv_list :: "(addr \<Rightarrow> t_serv) \<Rightarrow> addr option \<Rightarrow> addr list \<Rightarrow> bool" where
  "serv_list h p [] = (p = None)"
| "serv_list h p (a # as) = (p = Some a \<and> serv_list h (next_serv (h a)) as)"

text \<open>A configuration file with three \<^verbatim>\<open>AuthServer\<close> blocks, for the hosts \<^verbatim>\<open>a\<close>, \<^verbatim>\<open>b\<close>
  and \<^verbatim>\<open>c\<close>.\<close>

definition three_auth_servers :: "string list" where
  "three_auth_servers =
     [ln ''AuthServer {'', ln ''  Hostname a'', ln ''}'',
      ln ''AuthServer {'', ln ''  Hostname b'', ln ''}'',
      ln ''AuthServer {'', ln ''  Hostname c'', ln ''}'']"

section \<open>Properties\<close>

text \<open>Facts that evaluate the functions on concrete lines.\<close>

lemmas char_defs =
  isblank_def isdigit_def isspace_def tolower_def ismacchar_def strcasecmp_eq_def char_of_eq_iff

lemmas scan_defs =
  top_p1_def top_s_def strip_newline_def end_value_def ln_def end_at_eol_def block_p1_def
  block_p2_def word_at_def

lemma booted_fields:
  "daemon booted = - 1" "auth_servers booted = None" "portal_servers booted = None"
  "plat_servers booted = None" "gw_interface booted = None"
  "rulesets booted = []" "trustedmaclist booted = []" "errlog booted = []"
  "httpdusername booted = None" "httpdpassword booted = None" "linenum booted = 0"
  "brk booted = 2" "missing_parms booted = 0"
  by (simp_all add: booted_def config_init_def config_update_server_init_def safe_malloc_def
      static_state_def)

lemmas rule_defs = word_at_def TO_NEXT_WORD_def rule_target_def rule_to_mask_def parse_rule_def

subsection \<open>The firewall rule grammar\<close>

lemma parse_rule_allow_tcp:
  "parse_rule ''allow tcp port 80 to 10.0.0.0/8'' =
     Inr \<lparr>target = TARGET_ACCEPT, protocol = Some ''tcp'', port = Some ''80'',
          mask_r = Some ''10.0.0.0/8''\<rparr>"
  by (simp add: char_defs rule_defs)

lemma parse_rule_block:
  "parse_rule ''block'' =
     Inr \<lparr>target = TARGET_REJECT, protocol = None, port = None, mask_r = Some ''0.0.0.0/0''\<rparr>"
  by (simp add: char_defs rule_defs)

lemma parse_rule_foo:
  "parse_rule ''foo'' =
     Inr \<lparr>target = TARGET_REJECT, protocol = None, port = None, mask_r = Some ''0.0.0.0/0''\<rparr>"
  by (simp add: char_defs rule_defs)

lemma parse_rule_allow:
  "parse_rule ''allow'' =
     Inr \<lparr>target = TARGET_REJECT, protocol = None, port = None, mask_r = Some ''0.0.0.0/0''\<rparr>"
  by (simp add: char_defs rule_defs)

lemma parse_rule_foo_bar: "parse_rule ''foo bar'' = Inl (- 1, Invalid_rule_type ''foo'')"
  by (simp add: char_defs rule_defs)

lemma parse_rule_allow_port_abc: "parse_rule ''allow port abc'' = Inl (- 3, Invalid_port ''abc'')"
  by (simp add: char_defs rule_defs)

text \<open>What \<^verbatim>\<open>get_ruleset\<close> finds after a rule has been appended.\<close>

lemma get_ruleset_append_rule:
  "get_ruleset (append_rule n r rs) m = (if m = n then get_ruleset rs n @ [r] else get_ruleset rs m)"
  by (induction rs) auto

text \<open>
  Claim C6. The rule line \<^verbatim>\<open>allow tcp port 80 to 10.0.0.0/8\<close> parses: the function returns 1
  and the rules that \<^verbatim>\<open>get_ruleset\<close> finds under the name afterwards are those it found
  before, followed by a rule with target accept, protocol \<^verbatim>\<open>tcp\<close>, port \<^verbatim>\<open>80\<close> and mask
  \<^verbatim>\<open>10.0.0.0/8\<close>; in a configuration without rulesets the result is the one ruleset of that
  name with that one rule, and nothing else of the state changes. The bare line \<^verbatim>\<open>block\<close>
  parses in the same way to a rule with target reject, no protocol, no port and mask
  \<^verbatim>\<open>0.0.0.0/0\<close>.
\<close>

theorem parse_firewall_rule_examples:
  "parse_firewall_rule ruleset ''allow tcp port 80 to 10.0.0.0/8'' st =
     (1, st\<lparr>rulesets :=
              append_rule ruleset
                \<lparr>target = TARGET_ACCEPT, protocol = Some ''tcp'', port = Some ''80'',
                 mask_r = Some ''10.0.0.0/8''\<rparr> (rulesets st)\<rparr>)
   \<and> get_ruleset
         (rulesets (snd (parse_firewall_rule ruleset ''allow tcp port 80 to 10.0.0.0/8'' st)))
         ruleset
     = get_ruleset (rulesets st) ruleset
       @ [\<lparr>target = TARGET_ACCEPT, protocol = Some ''tcp'', port = Some ''80'',
           mask_r = Some ''10.0.0.0/8''\<rparr>]
   \<and> parse_firewall_rule ruleset ''allow tcp port 80 to 10.0.0.0/8'' (st\<lparr>rulesets := []\<rparr>)
     = (1, st\<lparr>rulesets :=
               [\<lparr>name = ruleset,
                 rules = [\<lparr>target = TARGET_ACCEPT, protocol = Some ''tcp'', port = Some ''80'',
                           mask_r = Some ''10.0.0.0/8''\<rparr>]\<rparr>]\<rparr>)
   \<and> parse_firewall_rule ruleset ''block'' st =
     (1, st\<lparr>rulesets :=
              append_rule ruleset
                \<lparr>target = TARGET_REJECT, protocol = None, port = None,
                 mask_r = Some ''0.0.0.0/0''\<rparr> (rulesets st)\<rparr>)
   \<and> get_ruleset (rulesets (snd (parse_firewall_rule ruleset ''block'' st))) ruleset
     = get_ruleset (rulesets st) ruleset
       @ [\<lparr>target = TARGET_REJECT, protocol = None, port = None,
           mask_r = Some ''0.0.0.0/0''\<rparr>]
   \<and> parse_firewall_rule ruleset ''block'' (st\<lparr>rulesets := []\<rparr>)
     = (1, st\<lparr>rulesets :=
               [\<lparr>name = ruleset,
                 rules = [\<lparr>target = TARGET_REJECT, protocol = None, port = None,
                           mask_r = Some ''0.0.0.0/0''\<rparr>]\<rparr>]\<rparr>)"
  by (simp add: parse_firewall_rule_def parse_rule_allow_tcp parse_rule_block
      get_ruleset_append_rule)

text \<open>
  Claim C5. The claim is that the rule line \<^verbatim>\<open>foo\<close> is rejected, with a failure code other
  than the one of \<^verbatim>\<open>allow port abc\<close>. The code accepts the line \<^verbatim>\<open>foo\<close>: a target that is
  the only word of its line is taken as \<^verbatim>\<open>block\<close>, whatever it is, because the first test
  is \<^verbatim>\<open>!strcasecmp(token, "block") || finished\<close>; the function returns 1 and appends a reject
  rule, as it does for the bare line \<^verbatim>\<open>allow\<close>. The line \<^verbatim>\<open>allow port abc\<close> fails with
  \<open>-3\<close>, and an unknown target is rejected with \<open>-1\<close> only when another word follows
  it, as in \<^verbatim>\<open>foo bar\<close>.
\<close>

theorem parse_firewall_rule_lone_target:
  "parse_firewall_rule ruleset ''foo'' st =
     (1, st\<lparr>rulesets :=
              append_rule ruleset
                \<lparr>target = TARGET_REJECT, protocol = None, port = None,
                 mask_r = Some ''0.0.0.0/0''\<rparr> (rulesets st)\<rparr>)
   \<and> parse_firewall_rule ruleset ''allow'' st =
     (1, st\<lparr>rulesets :=
              append_rule ruleset
                \<lparr>target = TARGET_REJECT, protocol = None, port = None,
                 mask_r = Some ''0.0.0.0/0''\<rparr> (rulesets st)\<rparr>)
   \<and> parse_firewall_rule ruleset ''allow port abc'' st = (- 3, debug (Invalid_port ''abc'') st)
   \<and> parse_firewall_rule ruleset ''foo bar'' st = (- 1, debug (Invalid_rule_type ''foo'') st)"
  by (simp add: parse_firewall_rule_def parse_rule_foo parse_rule_allow
      parse_rule_allow_port_abc parse_rule_foo_bar)

subsection \<open>The trusted MAC list\<close>

text \<open>What the walk compares: every entry but the last.\<close>

lemma skipmac_walk_eq: "skipmac_walk mac l skipmac = (skipmac \<or> mac \<in> set (butlast l))"
  by (induction mac l skipmac rule: skipmac_walk.induct) auto

lemma add_trusted_mac_eq:
  "add_trusted_mac mac l =
     (if l = [] then [mac]
      else if mac = hd l \<or> mac \<in> set (butlast l) then l
      else l @ [mac])"
  by (cases l) (auto simp: add_trusted_mac_def skipmac_walk_eq)

lemma trusted_list_line:
  "config_read_loop dns d [ln ''TrustedMACList AA,BB,BB''] st
     = Inr (parse_trusted_mac_list ''AA,BB,BB'' (st\<lparr>linenum := linenum st + 1\<rparr>))"
  by (simp add: scan_defs char_defs config_parse_token_def keywords_tab_def config_option_def)

text \<open>
  Claim C3. The claim is that a value is appended only if no entry of the whole list equals
  it, so that the list never holds a value twice. The walk over the list stops at the last
  entry without comparing it, and the test before the walk compares the first entry only:
  on the directive value \<^verbatim>\<open>AA,BB,BB\<close> and an empty list, the third token is compared with
  \<^verbatim>\<open>AA\<close> alone and appended, and the list holds \<^verbatim>\<open>BB\<close> twice. So it is after
  \<^verbatim>\<open>config_read\<close> on the line \<^verbatim>\<open>TrustedMACList AA,BB,BB\<close>.
\<close>

theorem parse_trusted_mac_list_duplicate:
  "trustedmaclist (parse_trusted_mac_list ''AA,BB,BB'' (st\<lparr>trustedmaclist := []\<rparr>))
     = [''AA'', ''BB'', ''BB'']
   \<and> config_read sample_dns sample_defaults (Some [ln ''TrustedMACList AA,BB,BB'']) booted
     = Inr (booted\<lparr>linenum := 1, trustedmaclist := [''AA'', ''BB'', ''BB'']\<rparr>)"
proof -
  have m: "parse_trusted_mac_list ''AA,BB,BB'' s
      = s\<lparr>trustedmaclist := [''AA'', ''BB'', ''BB'']\<rparr>" if "trustedmaclist s = []" for s
    using that
    by (simp add: parse_trusted_mac_list_def scan_mac_def add_trusted_mac_def char_defs)
  have "config_read sample_dns sample_defaults (Some [ln ''TrustedMACList AA,BB,BB'']) booted
     = Inr (booted\<lparr>linenum := 1, trustedmaclist := [''AA'', ''BB'', ''BB'']\<rparr>)"
    by (simp add: config_read_def trusted_list_line m booted_fields del: config_read_loop.simps)
  moreover have "trustedmaclist (parse_trusted_mac_list ''AA,BB,BB'' (st\<lparr>trustedmaclist := []\<rparr>))
     = [''AA'', ''BB'', ''BB'']"
    by (simp add: m)
  ultimately show ?thesis by (simp del: config_read_loop.simps)
qed

subsection \<open>What leaves the daemon flag alone\<close>











lemma parse_boolean_value_range: "parse_boolean_value p \<in> {- 1, 0, 1}"
  by (simp add: parse_boolean_value_def)




subsection \<open>Server blocks without a host name\<close>

lemma server_option_keeps_host:
  assumes "opcode \<in> {oServPath, oServLoginScriptPathFragment, oServPortalScriptPathFragment,
                  oServMsgScriptPathFragment, oServPingScriptPathFragment,
                  oServAuthScriptPathFragment, oServSSLPort, oServHTTPPort, oLogServPort,
                  oServSSLAvailable}"
  shows "\<exists>v'. server_option opcode p2 v = Some v' \<and> host v' = host v"
  using assms by (auto simp: server_option_def)

lemma parse_server_loop_no_hostname:
  assumes "list_all sets_no_hostname block"
  shows "\<exists>v'. host v' = host v \<and>
           parse_server_loop (block @ rest) v st =
           parse_server_loop rest v' (st\<lparr>linenum := linenum st + int (length block)\<rparr>)"
  using assms
proof (induction block arbitrary: v st)
  case Nil
  show ?case by (rule exI [of _ v]) simp
next
  case (Cons line block)
  let ?st1 = "st\<lparr>linenum := linenum st + 1\<rparr>"
  from Cons.prems have q: "sets_no_hostname line" and qs: "list_all sets_no_hostname block"
    by simp_all
  from q have nb: "CHR ''}'' \<notin> set line" by (simp add: sets_no_hostname_def)
  have ln: "?st1\<lparr>linenum := linenum ?st1 + int (length block)\<rparr>
             = st\<lparr>linenum := linenum st + int (length (line # block))\<rparr>"
    by simp
  show ?case
  proof (cases "end_at_eol (dropWhile isblank line) = []")
    case True
    from Cons.IH [OF qs, of v ?st1] obtain v' where
      "host v' = host v"
      "parse_server_loop (block @ rest) v ?st1 =
         parse_server_loop rest v' (?st1\<lparr>linenum := linenum ?st1 + int (length block)\<rparr>)"
      by blast
    with nb True ln show ?thesis
      by (intro exI [of _ v']) (simp add: Let_def add.assoc)
  next
    case False
    with q obtain opcode where
      kw: "keyword_lookup keywords_tab (block_p1 line) = Some opcode"
      and oc: "opcode \<in> {oServPath, oServLoginScriptPathFragment, oServPortalScriptPathFragment,
                  oServMsgScriptPathFragment, oServPingScriptPathFragment,
                  oServAuthScriptPathFragment, oServSSLPort, oServHTTPPort, oLogServPort,
                  oServSSLAvailable}"
      by (auto simp: sets_no_hostname_def)
    from server_option_keeps_host [OF oc, of "block_p2 line" v] obtain v2 where
      so: "server_option opcode (block_p2 line) v = Some v2" and h2: "host v2 = host v"
      by blast
    from Cons.IH [OF qs, of v2 ?st1] obtain v' where
      "host v' = host v2"
      "parse_server_loop (block @ rest) v2 ?st1 =
         parse_server_loop rest v' (?st1\<lparr>linenum := linenum ?st1 + int (length block)\<rparr>)"
      by blast
    with nb False kw so h2 ln show ?thesis
      by (intro exI [of _ v']) (simp add: Let_def config_parse_token_def add.assoc)
  qed
qed

lemma parse_server_no_hostname:
  assumes "list_all sets_no_hostname block" "rest = [] \<or> CHR ''}'' \<in> set (hd rest)"
  shows "parse_server dns d type (block @ rest) st =
         Inr (tl rest, st\<lparr>linenum := linenum st + int (length block)\<rparr>)"
proof -
  from parse_server_loop_no_hostname [OF assms(1), of "serv_defaults d" rest st]
  obtain v' where h: "host v' = None" and
    l: "parse_server_loop (block @ rest) (serv_defaults d) st =
           parse_server_loop rest v' (st\<lparr>linenum := linenum st + int (length block)\<rparr>)"
    by (auto simp: serv_defaults_def)
  from assms(2) have "parse_server_loop rest v' (st\<lparr>linenum := linenum st + int (length block)\<rparr>)
      = Inr (tl rest, v', st\<lparr>linenum := linenum st + int (length block)\<rparr>)"
    by (cases rest) auto
  with l h show ?thesis by (simp add: parse_server_def)
qed

lemma server_token:
  "strcasecmp_eq s ''authserver'' \<Longrightarrow> keyword_lookup keywords_tab s = Some oAuthServer"
  "strcasecmp_eq s ''portalserver'' \<Longrightarrow> keyword_lookup keywords_tab s = Some oPortalServer"
  "strcasecmp_eq s ''platformserver'' \<Longrightarrow> keyword_lookup keywords_tab s = Some oPlatServer"
  by (simp_all add: keywords_tab_def strcasecmp_eq_def tolower_def char_of_eq_iff)

lemma server_token_no_hash:
  assumes "strcasecmp_eq s ''authserver'' \<or> strcasecmp_eq s ''portalserver''
           \<or> strcasecmp_eq s ''platformserver''"
  shows "take 1 s \<noteq> ''#''"
proof
  assume "take 1 s = ''#''"
  then obtain cs where "s = CHR ''#'' # cs" by (cases s) auto
  with assms show False by (auto simp: strcasecmp_eq_def tolower_def)
qed

text \<open>
  Claim C9. A server block whose interior lines are empty lines, comments, or server
  directives other than \<^verbatim>\<open>Hostname\<close> is discarded when it closes, whether by a line with
  \<^verbatim>\<open>}\<close> or by the end of the file: \<^verbatim>\<open>parse_server\<close> returns for every kind of block,
  and the state it returns is the state it was called in, with nothing but the line counter
  advanced by the interior lines; no list, no node of the store and no message is added. After
  an \<^verbatim>\<open>AuthServer\<close>, \<^verbatim>\<open>PortalServer\<close> or \<^verbatim>\<open>PlatformServer\<close> line, \<^verbatim>\<open>config_read\<close> goes on
  with the lines after the closing one.
\<close>

theorem no_hostname_block_discarded:
  assumes "list_all sets_no_hostname block" and "CHR ''}'' \<in> set closing"
  shows "parse_server dns d type (block @ closing # rest) st =
           Inr (rest, st\<lparr>linenum := linenum st + int (length block)\<rparr>)
       \<and> parse_server dns d type block st =
           Inr ([], st\<lparr>linenum := linenum st + int (length block)\<rparr>)
       \<and> (top_p1 opener = Some p1 \<and> p1 \<noteq> []
            \<and> (strcasecmp_eq (top_s opener) ''authserver''
               \<or> strcasecmp_eq (top_s opener) ''portalserver''
               \<or> strcasecmp_eq (top_s opener) ''platformserver'') \<longrightarrow>
          config_read_loop dns d (opener # block @ closing # rest) st =
          config_read_loop dns d rest (st\<lparr>linenum := linenum st + 1 + int (length block)\<rparr>))"
proof (intro conjI impI)
  show a: "parse_server dns d type (block @ closing # rest) st =
           Inr (rest, st\<lparr>linenum := linenum st + int (length block)\<rparr>)" for type st
    using parse_server_no_hostname [OF assms(1), of "closing # rest" dns d type st] assms(2)
    by simp
  show "parse_server dns d type block st =
           Inr ([], st\<lparr>linenum := linenum st + int (length block)\<rparr>)"
    using parse_server_no_hostname [OF assms(1), of "[]" dns d type st] by simp
  assume o: "top_p1 opener = Some p1 \<and> p1 \<noteq> []
            \<and> (strcasecmp_eq (top_s opener) ''authserver''
               \<or> strcasecmp_eq (top_s opener) ''portalserver''
               \<or> strcasecmp_eq (top_s opener) ''platformserver'')"
  let ?st1 = "st\<lparr>linenum := linenum st + 1\<rparr>"
  from o have nh: "take 1 (top_s opener) \<noteq> ''#''"
    using server_token_no_hash [of "top_s opener"] by blast
  from o obtain opcode where
    kw: "keyword_lookup keywords_tab (top_s opener) = Some opcode"
    and oc: "opcode = oAuthServer \<or> opcode = oPortalServer \<or> opcode = oPlatServer"
    using server_token [of "top_s opener"] by blast
  from kw have tok: "config_parse_token (top_s opener) ?st1 = (opcode, ?st1)"
    by (simp add: config_parse_token_def)
  from o nh tok oc a [of _ ?st1]
  show "config_read_loop dns d (opener # block @ closing # rest) st =
          config_read_loop dns d rest (st\<lparr>linenum := linenum st + 1 + int (length block)\<rparr>)"
    by (auto simp: Let_def simp del: config_read_loop.simps(2)
        simp add: config_read_loop.simps(2) [of dns d opener "block @ closing # rest" st])
qed

text \<open>A block with a path, a comment and an SSL flag, followed by a \<^verbatim>\<open>GatewayID\<close> line.\<close>

theorem no_hostname_block_discarded_witness:
  "list_all sets_no_hostname [ln ''  Path /x/'', ln ''  # no host name'', ln ''  SSLAvailable yes'']
   \<and> CHR ''}'' \<in> set (ln ''}'')
   \<and> parse_server sample_dns sample_defaults 1
         ([ln ''  Path /x/'', ln ''  # no host name'', ln ''  SSLAvailable yes'']
            @ ln ''}'' # [ln ''GatewayID gw1'']) booted
       = Inr ([ln ''GatewayID gw1''], booted\<lparr>linenum := 3\<rparr>)
   \<and> top_p1 (ln ''AuthServer {'') = Some ''{''
   \<and> strcasecmp_eq (top_s (ln ''AuthServer {'')) ''authserver''
   \<and> config_read_loop sample_dns sample_defaults
         (ln ''AuthServer {''
            # [ln ''  Path /x/'', ln ''  # no host name'', ln ''  SSLAvailable yes'']
            @ ln ''}'' # [ln ''GatewayID gw1'']) booted
       = Inr (booted\<lparr>linenum := 5, gw_id := Some ''gw1''\<rparr>)
   \<and> auth_servers (booted\<lparr>linenum := 5, gw_id := Some ''gw1''\<rparr>) = None"
proof -
  have q: "list_all sets_no_hostname
             [ln ''  Path /x/'', ln ''  # no host name'', ln ''  SSLAvailable yes'']"
    by (simp add: sets_no_hostname_def scan_defs char_defs keywords_tab_def)
  have c: "CHR ''}'' \<in> set (ln ''}'')"
    by (simp add: ln_def)
  have o: "top_p1 (ln ''AuthServer {'') = Some ''{''"
    "strcasecmp_eq (top_s (ln ''AuthServer {'')) ''authserver''"
    by (simp_all add: scan_defs char_defs)
  have g: "config_read_loop sample_dns sample_defaults [ln ''GatewayID gw1''] st
           = Inr (st\<lparr>linenum := linenum st + 1, gw_id := Some ''gw1''\<rparr>)" for st
    by (simp add: scan_defs char_defs config_parse_token_def keywords_tab_def config_option_def)
  note t = no_hostname_block_discarded [OF q c, of sample_dns sample_defaults 1
      "[ln ''GatewayID gw1'']" booted "ln ''AuthServer {''" "''{''"]
  from t have p: "parse_server sample_dns sample_defaults 1
         ([ln ''  Path /x/'', ln ''  # no host name'', ln ''  SSLAvailable yes'']
            @ ln ''}'' # [ln ''GatewayID gw1'']) booted
       = Inr ([ln ''GatewayID gw1''], booted\<lparr>linenum := 3\<rparr>)"
    by (simp add: booted_fields)
  from t o have "config_read_loop sample_dns sample_defaults
         (ln ''AuthServer {''
            # [ln ''  Path /x/'', ln ''  # no host name'', ln ''  SSLAvailable yes'']
            @ ln ''}'' # [ln ''GatewayID gw1'']) booted
       = config_read_loop sample_dns sample_defaults [ln ''GatewayID gw1'']
           (booted\<lparr>linenum := 4\<rparr>)"
    by (simp add: booted_fields del: config_read_loop.simps)
  then have l: "config_read_loop sample_dns sample_defaults
         (ln ''AuthServer {''
            # [ln ''  Path /x/'', ln ''  # no host name'', ln ''  SSLAvailable yes'']
            @ ln ''}'' # [ln ''GatewayID gw1'']) booted
       = Inr (booted\<lparr>linenum := 5, gw_id := Some ''gw1''\<rparr>)"
    by (simp only: g) simp
  from q c p o l show ?thesis
    by (simp add: booted_fields del: config_read_loop.simps)
qed

subsection \<open>Unknown tokens at the top level\<close>

lemma skipped_line:
  assumes "top_p1 line = None \<or> top_p1 line = Some [] \<or> take 1 (top_s line) = ''#''"
  shows "config_read_loop dns d (line # fd) st =
         config_read_loop dns d fd (st\<lparr>linenum := linenum st + 1\<rparr>)"
proof (cases "top_p1 line")
  case None
  then show ?thesis by simp
next
  case (Some p1)
  with assms show ?thesis by (cases "p1 = []") (auto simp: Let_def)
qed

lemma unknown_token_line:
  assumes "top_p1 line = Some p1" "p1 \<noteq> []" "take 1 (top_s line) \<noteq> ''#''"
    "keyword_lookup keywords_tab (top_s line) = None"
  shows "config_read_loop dns d (line # fd) st =
         Inl (Exited (- 1)
               (errlog st @ [Bad_configuration_option (linenum st + 1) (top_s line),
                             Bad_option_on_line (linenum st + 1), Exiting]))"
  using assms
  by (simp add: Let_def config_parse_token_def bad_option_exit_def debug_def)

text \<open>
  Claim C4, as the code has it. The claim is that every line of the top level whose first
  token matches no keyword is fatal. The code looks at the token only when the line has a
  value: a line with no space or tab, or with nothing after it, or whose token starts with
  \<^verbatim>\<open>#\<close>, is skipped before \<^verbatim>\<open>config_parse_token\<close> is called. The line \<^verbatim>\<open>foo\<close> alone is
  skipped and \<^verbatim>\<open>config_read\<close> returns.
\<close>

theorem unknown_option_without_value_skipped:
  "keyword_lookup keywords_tab (top_s (ln ''foo'')) = None
   \<and> config_read sample_dns sample_defaults (Some [ln ''foo'']) booted
       = Inr (booted\<lparr>linenum := 1\<rparr>)"
proof -
  have t: "top_s (ln ''foo'') = ''foo''" "top_p1 (ln ''foo'') = None"
    by (simp_all add: scan_defs)
  have k: "keyword_lookup keywords_tab ''foo'' = None"
    by (simp add: keywords_tab_def char_defs)
  have "config_read_loop sample_dns sample_defaults [ln ''foo''] (booted\<lparr>linenum := 0\<rparr>)
      = Inr (booted\<lparr>linenum := 1\<rparr>)"
    using skipped_line [of "ln ''foo''" sample_dns sample_defaults "[]" "booted\<lparr>linenum := 0\<rparr>"] t
    by (simp del: config_read_loop.simps(2))
  then have "config_read sample_dns sample_defaults (Some [ln ''foo'']) booted
       = Inr (booted\<lparr>linenum := 1\<rparr>)"
    by (simp add: config_read_def booted_fields del: config_read_loop.simps)
  with t k show ?thesis by simp
qed

text \<open>
  Claim C4, amended. A line of the top level that has a value, whose first token does not
  start with \<^verbatim>\<open>#\<close> and matches no keyword under \<^verbatim>\<open>strcasecmp\<close>, ends \<^verbatim>\<open>config_read\<close> by
  \<^verbatim>\<open>exit(-1)\<close> after three messages, whatever follows it. A line without a value, or whose
  token starts with \<^verbatim>\<open>#\<close>, is skipped whatever its token is.
\<close>

theorem unknown_option_with_value_fatal:
  "(top_p1 line = Some p1 \<and> p1 \<noteq> [] \<and> take 1 (top_s line) \<noteq> ''#''
      \<and> keyword_lookup keywords_tab (top_s line) = None \<longrightarrow>
    config_read_loop dns d (line # fd) st =
      Inl (Exited (- 1)
            (errlog st @ [Bad_configuration_option (linenum st + 1) (top_s line),
                          Bad_option_on_line (linenum st + 1), Exiting]))
    \<and> config_read dns d (Some (line # fd)) st =
      Inl (Exited (- 1)
            (errlog st @ [Bad_configuration_option 1 (top_s line), Bad_option_on_line 1,
                          Exiting])))
   \<and> (top_p1 line = None \<or> top_p1 line = Some [] \<or> take 1 (top_s line) = ''#'' \<longrightarrow>
        config_read_loop dns d (line # fd) st =
        config_read_loop dns d fd (st\<lparr>linenum := linenum st + 1\<rparr>))"
proof (intro conjI impI)
  assume a: "top_p1 line = Some p1 \<and> p1 \<noteq> [] \<and> take 1 (top_s line) \<noteq> ''#''
      \<and> keyword_lookup keywords_tab (top_s line) = None"
  then show "config_read_loop dns d (line # fd) st =
      Inl (Exited (- 1)
            (errlog st @ [Bad_configuration_option (linenum st + 1) (top_s line),
                          Bad_option_on_line (linenum st + 1), Exiting]))"
    using unknown_token_line [of line p1 dns d fd st] by blast
  from a have "config_read_loop dns d (line # fd) (st\<lparr>linenum := 0\<rparr>) =
      Inl (Exited (- 1)
            (errlog st @ [Bad_configuration_option 1 (top_s line), Bad_option_on_line 1,
                          Exiting]))"
    using unknown_token_line [of line p1 dns d fd "st\<lparr>linenum := 0\<rparr>"]
    by (simp del: config_read_loop.simps)
  then show "config_read dns d (Some (line # fd)) st =
      Inl (Exited (- 1)
            (errlog st @ [Bad_configuration_option 1 (top_s line), Bad_option_on_line 1,
                          Exiting]))"
    by (simp add: config_read_def del: config_read_loop.simps)
next
  assume "top_p1 line = None \<or> top_p1 line = Some [] \<or> take 1 (top_s line) = ''#''"
  then show "config_read_loop dns d (line # fd) st =
        config_read_loop dns d fd (st\<lparr>linenum := linenum st + 1\<rparr>)"
    by (rule skipped_line)
qed

theorem unknown_option_with_value_fatal_witness:
  "top_p1 (ln ''foo bar'') = Some ''bar'' \<and> take 1 (top_s (ln ''foo bar'')) \<noteq> ''#''
   \<and> keyword_lookup keywords_tab (top_s (ln ''foo bar'')) = None
   \<and> config_read sample_dns sample_defaults (Some [ln ''foo bar'', ln ''Daemon yes'']) booted =
       Inl (Exited (- 1) [Bad_configuration_option 1 ''foo'', Bad_option_on_line 1, Exiting])
   \<and> top_p1 (ln ''foo'') = None
   \<and> config_read_loop sample_dns sample_defaults [ln ''foo''] booted =
       Inr (booted\<lparr>linenum := 1\<rparr>)"
proof -
  have t: "top_p1 (ln ''foo bar'') = Some ''bar''" "top_s (ln ''foo bar'') = ''foo''"
    "top_p1 (ln ''foo'') = None"
    by (simp_all add: scan_defs)
  have k: "keyword_lookup keywords_tab ''foo'' = None"
    by (simp add: keywords_tab_def char_defs)
  have a: "config_read sample_dns sample_defaults (Some [ln ''foo bar'', ln ''Daemon yes'']) booted =
       Inl (Exited (- 1) [Bad_configuration_option 1 ''foo'', Bad_option_on_line 1, Exiting])"
    using unknown_option_with_value_fatal [of "ln ''foo bar''" "''bar''" sample_dns
        sample_defaults "[ln ''Daemon yes'']" booted, THEN conjunct1, THEN mp] t k
    by (simp add: booted_fields del: config_read_loop.simps)
  have b: "config_read_loop sample_dns sample_defaults [ln ''foo''] booted =
       Inr (booted\<lparr>linenum := 1\<rparr>)"
    using unknown_option_with_value_fatal [of "ln ''foo''" _ sample_dns
        sample_defaults "[]" booted, THEN conjunct2, THEN mp] t
    by (simp add: booted_fields del: config_read_loop.simps(2))
  from t k a b show ?thesis by (simp del: config_read_loop.simps)
qed

subsection \<open>The completeness checks\<close>

lemma config_validate_eq:
  "config_validate st =
     (if gw_interface st = None \<or> auth_servers st = None \<or> missing_parms st \<noteq> 0
      then Inl (Exited (- 1)
             (errlog st
               @ (if gw_interface st = None then [Not_set ''GatewayInterface''] else [])
               @ (if auth_servers st = None then [Not_set ''AuthServer''] else [])
               @ [Not_complete]))
      else Inr st)"
  by (simp add: config_validate_def config_notnull_def debug_def Let_def)

lemma config_read_password:
  assumes "config_read_loop dns d fd (st\<lparr>linenum := 0\<rparr>) = Inr st'"
    "httpdusername st' \<noteq> None" "httpdpassword st' = None"
  shows "config_read dns d (Some fd) st = Inl (Exited (- 1) (errlog st' @ [Requires_password]))"
  using assms by (simp add: config_read_def debug_def)

lemma username_line:
  "config_read_loop dns d [ln ''HTTPDUserName admin''] st
     = Inr (st\<lparr>linenum := linenum st + 1, httpdusername := Some ''admin''\<rparr>)"
  by (simp add: scan_defs char_defs config_parse_token_def keywords_tab_def config_option_def)

text \<open>
  Claim C8, as the code has it. The claim is that three violations (no gateway interface, no
  authentication server, a user name without a password) are reported together before the
  process exits. The user name is checked at the end of \<^verbatim>\<open>config_read\<close>, which exits at
  once: on the file of the one line \<^verbatim>\<open>HTTPDUserName admin\<close>, read in the state after
  \<^verbatim>\<open>config_init\<close>, where the interface and the servers are missing too, the process exits
  with the one message about the password.
\<close>

theorem password_check_exits_alone:
  "gw_interface booted = None \<and> auth_servers booted = None
   \<and> config_read sample_dns sample_defaults (Some [ln ''HTTPDUserName admin'']) booted
       = Inl (Exited (- 1) [Requires_password])"
  by (simp add: config_read_def username_line booted_fields debug_def
      del: config_read_loop.simps)

text \<open>
  Claim C8, amended. \<^verbatim>\<open>config_validate\<close> reports a missing gateway interface and an empty
  list of authentication servers together, each with its message, and exits after them with
  \<^verbatim>\<open>exit(-1)\<close>; it returns when neither is missing (and the flag \<^verbatim>\<open>missing_parms\<close> was not
  set before). A user name without a password is reported by \<^verbatim>\<open>config_read\<close> when the
  file has been read, alone, and the process exits there.
\<close>

theorem validate_accumulates:
  "config_validate st =
     (if gw_interface st = None \<or> auth_servers st = None \<or> missing_parms st \<noteq> 0
      then Inl (Exited (- 1)
             (errlog st
               @ (if gw_interface st = None then [Not_set ''GatewayInterface''] else [])
               @ (if auth_servers st = None then [Not_set ''AuthServer''] else [])
               @ [Not_complete]))
      else Inr st)
   \<and> (config_read_loop dns d fd (st\<lparr>linenum := 0\<rparr>) = Inr st'
        \<and> httpdusername st' \<noteq> None \<and> httpdpassword st' = None \<longrightarrow>
      config_read dns d (Some fd) st = Inl (Exited (- 1) (errlog st' @ [Requires_password])))"
  using config_validate_eq [of st] config_read_password [of dns d fd st st'] by blast

theorem validate_accumulates_witness:
  "config_validate booted =
     Inl (Exited (- 1) [Not_set ''GatewayInterface'', Not_set ''AuthServer'', Not_complete])
   \<and> config_read_loop sample_dns sample_defaults [ln ''HTTPDUserName admin'']
         (booted\<lparr>linenum := 0\<rparr>)
       = Inr (booted\<lparr>linenum := 1, httpdusername := Some ''admin''\<rparr>)
   \<and> httpdusername (booted\<lparr>linenum := 1, httpdusername := Some ''admin''\<rparr>) \<noteq> None
   \<and> httpdpassword (booted\<lparr>linenum := 1, httpdusername := Some ''admin''\<rparr>) = None
   \<and> config_read sample_dns sample_defaults (Some [ln ''HTTPDUserName admin'']) booted
       = Inl (Exited (- 1) [Requires_password])"
proof -
  have l: "config_read_loop sample_dns sample_defaults [ln ''HTTPDUserName admin'']
         (booted\<lparr>linenum := 0\<rparr>)
       = Inr (booted\<lparr>linenum := 1, httpdusername := Some ''admin''\<rparr>)"
    by (simp add: username_line del: config_read_loop.simps)
  have v: "config_validate booted =
     Inl (Exited (- 1) [Not_set ''GatewayInterface'', Not_set ''AuthServer'', Not_complete])"
    using validate_accumulates [of booted, THEN conjunct1] by (simp add: booted_fields)
  have r: "config_read sample_dns sample_defaults (Some [ln ''HTTPDUserName admin'']) booted
       = Inl (Exited (- 1) [Requires_password])"
    using validate_accumulates [of booted sample_dns sample_defaults
        "[ln ''HTTPDUserName admin'']" "booted\<lparr>linenum := 1, httpdusername := Some ''admin''\<rparr>",
        THEN conjunct2, THEN mp] l
    by (simp add: booted_fields del: config_read_loop.simps)
  from l v r show ?thesis by (simp add: booted_fields del: config_read_loop.simps)
qed

subsection \<open>Ruleset blocks\<close>

text \<open>The rest of a block line whose first word runs up to a \<^verbatim>\<open>#\<close> is the text behind
  the \<^verbatim>\<open>#\<close>, newline included; behind a blank it ends before the \<^verbatim>\<open>#\<close>.\<close>

lemma block_p2_over_cut:
  "block_p2 (ln ''  FirewallRule#foo bar'') = ln ''foo bar''"
  "block_p2 (ln ''  FirewallRule#allow udp'') = ln ''allow udp''"
  "block_p2 (ln ''  FirewallRule allow # all'') = ''allow ''"
  "block_p2 (ln ''  FirewallRule'') = []"
  by (simp_all add: scan_defs char_defs)

lemma append_rule_names:
  "map name (append_rule n r rs) =
     (if n \<in> set (map name rs) then map name rs else map name rs @ [n])"
  by (induction rs) auto

lemma distinct_append_rule:
  "distinct (map name rs) \<Longrightarrow> distinct (map name (append_rule n r rs))"
  by (simp add: append_rule_names)

lemma distinct_append_rules:
  "distinct (map name rs) \<Longrightarrow> distinct (map name (foldl (\<lambda>rs r. append_rule n r rs) rs xs))"
  by (induction xs arbitrary: rs) (simp_all add: distinct_append_rule)

lemma get_ruleset_append_rules:
  "get_ruleset (foldl (\<lambda>rs r. append_rule n r rs) rs xs) m =
     (if m = n then get_ruleset rs n @ xs else get_ruleset rs m)"
  by (induction xs arbitrary: rs) (simp_all add: get_ruleset_append_rule)

lemma config_parse_token_rulesets: "rulesets (snd (config_parse_token cp st)) = rulesets st"
  by (simp add: config_parse_token_def debug_def split: option.splits)

lemma parse_firewall_rule_rulesets:
  "rulesets (snd (parse_firewall_rule n l st)) =
     (case parse_rule l of Inl e \<Rightarrow> rulesets st | Inr r \<Rightarrow> append_rule n r (rulesets st))"
  by (simp add: parse_firewall_rule_def debug_def split: sum.splits prod.splits)

lemma ruleset_block_rules:
  "parse_firewall_ruleset n fd st = Inr (fd', st') \<Longrightarrow>
   rulesets st' = foldl (\<lambda>rs r. append_rule n r rs) (rulesets st) (block_rules fd)"
proof (induction fd arbitrary: st)
  case Nil
  then show ?case by simp
next
  case (Cons line fd)
  let ?st1 = "st\<lparr>linenum := linenum st + 1\<rparr>"
  show ?case
  proof (cases "CHR ''}'' \<in> set line")
    case True
    with Cons.prems show ?thesis by simp
  next
    case False
    note nb = this
    show ?thesis
    proof (cases "end_at_eol (dropWhile isblank line) = []")
      case True
      with nb Cons.prems have "parse_firewall_ruleset n fd ?st1 = Inr (fd', st')"
        by (simp add: Let_def)
      from Cons.IH [OF this] nb True show ?thesis by simp
    next
      case False
      obtain opcode st2 where tok: "config_parse_token (block_p1 line) ?st1 = (opcode, st2)"
        by (cases "config_parse_token (block_p1 line) ?st1")
      have r2: "rulesets st2 = rulesets st"
        using config_parse_token_rulesets [of "block_p1 line" ?st1] tok by simp
      from nb False tok Cons.prems
      have "parse_firewall_ruleset n fd (snd (parse_firewall_rule n (block_p2 line) st2))
              = Inr (fd', st')"
        by (simp add: Let_def split: if_splits)
      from Cons.IH [OF this] nb False r2 show ?thesis
        by (simp add: parse_firewall_rule_rulesets split: sum.splits)
    qed
  qed
qed

lemma append_rule_has_name: "n \<in> set (map name (append_rule n r rs))"
  by (simp add: append_rule_names)

lemma append_rules_has_name:
  "n \<in> set (map name rs) \<or> xs \<noteq> [] \<Longrightarrow>
   n \<in> set (map name (foldl (\<lambda>rs r. append_rule n r rs) rs xs))"
proof (induction xs arbitrary: rs)
  case Nil
  then show ?case by simp
next
  case (Cons x xs)
  have "n \<in> set (map name (append_rule n x rs))" by (rule append_rule_has_name)
  then show ?case using Cons.IH [of "append_rule n x rs"] by simp
qed

lemma filter_name_distinct:
  "distinct (map name rs) \<Longrightarrow> n \<in> set (map name rs) \<Longrightarrow>
   filter (\<lambda>r. name r = n) rs = [\<lparr>name = n, rules = get_ruleset rs n\<rparr>]"
proof (induction rs)
  case Nil
  then show ?case by simp
next
  case (Cons a rs)
  show ?case
  proof (cases "name a = n")
    case True
    with Cons.prems have "n \<notin> set (map name rs)" by auto
    then have "filter (\<lambda>r. name r = n) rs = []" by (auto simp: filter_empty_conv)
    with True show ?thesis by simp
  next
    case False
    with Cons show ?thesis by auto
  qed
qed

lemma firewallrule_token:
  "strcasecmp_eq s ''firewallrule'' \<Longrightarrow> keyword_lookup keywords_tab s = Some oFirewallRule"
  by (simp add: keywords_tab_def strcasecmp_eq_def tolower_def char_of_eq_iff)

lemma firewall_rule_line:
  assumes "CHR ''}'' \<notin> set line" "end_at_eol (dropWhile isblank line) \<noteq> []"
    "strcasecmp_eq (block_p1 line) ''firewallrule''"
  shows "parse_firewall_ruleset ruleset (line # fd) st =
         parse_firewall_ruleset ruleset fd
           (snd (parse_firewall_rule ruleset (block_p2 line) (st\<lparr>linenum := linenum st + 1\<rparr>)))"
  using assms firewallrule_token [OF assms(3)]
  by (simp add: Let_def config_parse_token_def)

lemma parse_rule_codes: "parse_rule l = Inl (code, m) \<Longrightarrow> code \<in> {- 1, - 3, - 4}"
  by (auto simp: parse_rule_def rule_to_mask_def Let_def
      split: option.splits if_splits prod.splits)

text \<open>
  Claim C7. Two ruleset blocks of the same name, read one after the other in a
  configuration whose ruleset names are distinct, with nothing between them that changes the
  rulesets: the names stay distinct, the rules of that name are the rules it had before
  followed by the rules of the first block that parse and then by those of the second, each
  in the order of their lines, there is exactly one ruleset of that name as soon as one rule
  parsed, and the rules of every other name are as before.
\<close>

theorem same_name_blocks_accumulate:
  assumes "distinct (map name (rulesets st))"
    and "parse_firewall_ruleset n fd1 st = Inr (rest1, st1)"
    and "rulesets st2 = rulesets st1"
    and "parse_firewall_ruleset n fd2 st2 = Inr (rest2, st3)"
  shows "distinct (map name (rulesets st3))
       \<and> get_ruleset (rulesets st3) n
           = get_ruleset (rulesets st) n @ block_rules fd1 @ block_rules fd2
       \<and> (block_rules fd1 @ block_rules fd2 \<noteq> [] \<longrightarrow>
            filter (\<lambda>r. name r = n) (rulesets st3)
              = [\<lparr>name = n,
                  rules = get_ruleset (rulesets st) n @ block_rules fd1 @ block_rules fd2\<rparr>])
       \<and> (m \<noteq> n \<longrightarrow> get_ruleset (rulesets st3) m = get_ruleset (rulesets st) m)"
proof -
  let ?both = "block_rules fd1 @ block_rules fd2"
  from ruleset_block_rules [OF assms(2)] ruleset_block_rules [OF assms(4)] assms(3)
  have r: "rulesets st3 = foldl (\<lambda>rs r. append_rule n r rs) (rulesets st) ?both"
    by simp
  from assms(1) have d: "distinct (map name (rulesets st3))"
    by (simp only: r distinct_append_rules)
  have g: "get_ruleset (rulesets st3) k =
      (if k = n then get_ruleset (rulesets st) n @ ?both else get_ruleset (rulesets st) k)" for k
    by (simp only: r get_ruleset_append_rules)
  have f: "filter (\<lambda>r. name r = n) (rulesets st3)
              = [\<lparr>name = n, rules = get_ruleset (rulesets st) n @ ?both\<rparr>]"
    if "?both \<noteq> []"
  proof -
    from that have "n \<in> set (map name (rulesets st3))"
      unfolding r by (intro append_rules_has_name) simp
    from filter_name_distinct [OF d this] show ?thesis by (simp add: g)
  qed
  from d g f show ?thesis by simp
qed

text \<open>Two blocks named \<^verbatim>\<open>lan\<close>, the first with an \<^verbatim>\<open>allow\<close> rule, the second with a
  \<^verbatim>\<open>block\<close> rule and a line whose rule stands behind a \<^verbatim>\<open>#\<close>, read from line 2 and from
  line 4 of a file.\<close>

lemmas block_eval =
  scan_defs char_defs config_parse_token_def keywords_tab_def parse_firewall_rule_def
  TO_NEXT_WORD_def rule_target_def rule_to_mask_def parse_rule_def debug_def

theorem same_name_blocks_accumulate_witness:
  "distinct (map name (rulesets (booted\<lparr>linenum := 1\<rparr>)))
   \<and> parse_firewall_ruleset ''lan''
         [ln ''  FirewallRule allow tcp port 80'', ln ''}'', ln ''FirewallRuleSet lan {'',
          ln ''  FirewallRule block to 10.0.0.0/8'', ln ''  FirewallRule#allow udp'', ln ''}'']
         (booted\<lparr>linenum := 1\<rparr>)
       = Inr ([ln ''FirewallRuleSet lan {'', ln ''  FirewallRule block to 10.0.0.0/8'',
               ln ''  FirewallRule#allow udp'', ln ''}''],
              booted\<lparr>linenum := 2,
                rulesets := [\<lparr>name = ''lan'',
                  rules = [\<lparr>target = TARGET_ACCEPT, protocol = Some ''tcp'',
                            port = Some ''80'', mask_r = Some ''0.0.0.0/0''\<rparr>]\<rparr>]\<rparr>)
   \<and> parse_firewall_ruleset ''lan''
         [ln ''  FirewallRule block to 10.0.0.0/8'', ln ''  FirewallRule#allow udp'', ln ''}'']
         (booted\<lparr>linenum := 3,
                rulesets := [\<lparr>name = ''lan'',
                  rules = [\<lparr>target = TARGET_ACCEPT, protocol = Some ''tcp'',
                            port = Some ''80'', mask_r = Some ''0.0.0.0/0''\<rparr>]\<rparr>]\<rparr>)
       = Inr ([], booted\<lparr>linenum := 5,
                rulesets := [\<lparr>name = ''lan'',
                  rules = [\<lparr>target = TARGET_ACCEPT, protocol = Some ''tcp'',
                            port = Some ''80'', mask_r = Some ''0.0.0.0/0''\<rparr>,
                           \<lparr>target = TARGET_REJECT, protocol = None,
                            port = None, mask_r = Some ''10.0.0.0/8''\<rparr>,
                           \<lparr>target = TARGET_ACCEPT, protocol = Some (ln ''udp''),
                            port = None, mask_r = Some ''0.0.0.0/0''\<rparr>]\<rparr>]\<rparr>)
   \<and> get_ruleset (rulesets (booted\<lparr>linenum := 5,
                rulesets := [\<lparr>name = ''lan'',
                  rules = [\<lparr>target = TARGET_ACCEPT, protocol = Some ''tcp'',
                            port = Some ''80'', mask_r = Some ''0.0.0.0/0''\<rparr>,
                           \<lparr>target = TARGET_REJECT, protocol = None,
                            port = None, mask_r = Some ''10.0.0.0/8''\<rparr>,
                           \<lparr>target = TARGET_ACCEPT, protocol = Some (ln ''udp''),
                            port = None, mask_r = Some ''0.0.0.0/0''\<rparr>]\<rparr>]\<rparr>)) ''lan''
       = get_ruleset (rulesets (booted\<lparr>linenum := 1\<rparr>)) ''lan''
         @ block_rules [ln ''  FirewallRule allow tcp port 80'', ln ''}'',
             ln ''FirewallRuleSet lan {'', ln ''  FirewallRule block to 10.0.0.0/8'',
             ln ''  FirewallRule#allow udp'', ln ''}'']
         @ block_rules [ln ''  FirewallRule block to 10.0.0.0/8'',
             ln ''  FirewallRule#allow udp'', ln ''}'']
   \<and> block_rules [ln ''  FirewallRule allow tcp port 80'', ln ''}'',
             ln ''FirewallRuleSet lan {'', ln ''  FirewallRule block to 10.0.0.0/8'',
             ln ''  FirewallRule#allow udp'', ln ''}'']
         @ block_rules [ln ''  FirewallRule block to 10.0.0.0/8'',
             ln ''  FirewallRule#allow udp'', ln ''}'']
       = [\<lparr>target = TARGET_ACCEPT, protocol = Some ''tcp'',
                            port = Some ''80'', mask_r = Some ''0.0.0.0/0''\<rparr>,
                           \<lparr>target = TARGET_REJECT, protocol = None,
                            port = None, mask_r = Some ''10.0.0.0/8''\<rparr>,
                           \<lparr>target = TARGET_ACCEPT, protocol = Some (ln ''udp''),
                            port = None, mask_r = Some ''0.0.0.0/0''\<rparr>]"
proof -
  let ?r1 = "\<lparr>target = TARGET_ACCEPT, protocol = Some ''tcp'',
                            port = Some ''80'', mask_r = Some ''0.0.0.0/0''\<rparr>"
  let ?r2 = "\<lparr>target = TARGET_REJECT, protocol = None,
                            port = None, mask_r = Some ''10.0.0.0/8''\<rparr>"
  let ?r3 = "\<lparr>target = TARGET_ACCEPT, protocol = Some (ln ''udp''),
                            port = None, mask_r = Some ''0.0.0.0/0''\<rparr>"
  let ?fd2 = "[ln ''  FirewallRule block to 10.0.0.0/8'', ln ''  FirewallRule#allow udp'',
          ln ''}'']"
  let ?fd1 = "[ln ''  FirewallRule allow tcp port 80'', ln ''}'', ln ''FirewallRuleSet lan {'',
          ln ''  FirewallRule block to 10.0.0.0/8'', ln ''  FirewallRule#allow udp'', ln ''}'']"
  let ?st1 = "booted\<lparr>linenum := 2, rulesets := [\<lparr>name = ''lan'', rules = [?r1]\<rparr>]\<rparr>"
  let ?st2 = "booted\<lparr>linenum := 3, rulesets := [\<lparr>name = ''lan'', rules = [?r1]\<rparr>]\<rparr>"
  let ?st3 = "booted\<lparr>linenum := 5,
      rulesets := [\<lparr>name = ''lan'', rules = [?r1, ?r2, ?r3]\<rparr>]\<rparr>"
  have d: "distinct (map name (rulesets (booted\<lparr>linenum := 1\<rparr>)))"
    by (simp add: booted_fields)
  have b1: "parse_firewall_ruleset ''lan'' ?fd1 (booted\<lparr>linenum := 1\<rparr>)
       = Inr ([ln ''FirewallRuleSet lan {'', ln ''  FirewallRule block to 10.0.0.0/8'',
               ln ''  FirewallRule#allow udp'', ln ''}''], ?st1)"
    by (simp add: block_eval booted_fields)
  have e: "rulesets ?st2 = rulesets ?st1"
    by simp
  have b2: "parse_firewall_ruleset ''lan'' ?fd2 ?st2 = Inr ([], ?st3)"
    by (simp add: block_eval booted_fields)
  have r: "block_rules ?fd1 @ block_rules ?fd2 = [?r1, ?r2, ?r3]"
    by (simp add: block_eval)
  note t = same_name_blocks_accumulate [OF d b1 e b2, of "''lan''"]
  from t have g: "get_ruleset (rulesets ?st3) ''lan''
       = get_ruleset (rulesets (booted\<lparr>linenum := 1\<rparr>)) ''lan''
         @ block_rules ?fd1 @ block_rules ?fd2"
    by blast
  from d b1 b2 g r show ?thesis by simp
qed

text \<open>
  Claim C2, as the code has it. The claim is that a violation of the rule grammar inside a
  ruleset block is fatal and that no partial ruleset is kept. \<^verbatim>\<open>parse_firewall_ruleset\<close>
  calls \<^verbatim>\<open>_parse_firewall_rule\<close> and drops what it returns: on a block with the line
  \<^verbatim>\<open>FirewallRule foo bar\<close>, for which the rule parser returns \<open>-1\<close>, followed by a rule
  that parses, \<^verbatim>\<open>config_read\<close> returns, with the message of the violation logged and the
  ruleset holding the second rule.
\<close>

theorem rule_violation_block_continues:
  "parse_firewall_rule ''lan'' (block_p2 (ln ''  FirewallRule foo bar'')) (booted\<lparr>linenum := 2\<rparr>)
     = (- 1, booted\<lparr>linenum := 2, errlog := [Invalid_rule_type ''foo'']\<rparr>)
   \<and> config_read sample_dns sample_defaults
         (Some [ln ''FirewallRuleSet lan {'', ln ''  FirewallRule foo bar'',
                ln ''  FirewallRule allow tcp port 80'', ln ''}'']) booted
     = Inr (booted\<lparr>linenum := 3, errlog := [Invalid_rule_type ''foo''],
              rulesets := [\<lparr>name = ''lan'',
                rules = [\<lparr>target = TARGET_ACCEPT, protocol = Some ''tcp'',
                          port = Some ''80'', mask_r = Some ''0.0.0.0/0''\<rparr>]\<rparr>]\<rparr>)"
proof -
  have a: "parse_firewall_rule ''lan'' (block_p2 (ln ''  FirewallRule foo bar''))
      (booted\<lparr>linenum := 2\<rparr>)
     = (- 1, booted\<lparr>linenum := 2, errlog := [Invalid_rule_type ''foo'']\<rparr>)"
    by (simp add: block_eval booted_fields)
  have b: "parse_firewall_ruleset ''lan''
        [ln ''  FirewallRule foo bar'', ln ''  FirewallRule allow tcp port 80'', ln ''}'']
        (booted\<lparr>linenum := 1\<rparr>)
     = Inr ([], booted\<lparr>linenum := 3, errlog := [Invalid_rule_type ''foo''],
              rulesets := [\<lparr>name = ''lan'',
                rules = [\<lparr>target = TARGET_ACCEPT, protocol = Some ''tcp'',
                          port = Some ''80'', mask_r = Some ''0.0.0.0/0''\<rparr>]\<rparr>]\<rparr>)"
    by (simp add: block_eval booted_fields)
  have t: "top_p1 (ln ''FirewallRuleSet lan {'') = Some ''lan''"
    "top_s (ln ''FirewallRuleSet lan {'') = ''FirewallRuleSet''"
    by (simp_all add: scan_defs)
  have k: "config_parse_token ''FirewallRuleSet'' st = (oFirewallRuleSet, st)" for st
    by (simp add: config_parse_token_def keywords_tab_def char_defs)
  have "config_read_loop sample_dns sample_defaults
         [ln ''FirewallRuleSet lan {'', ln ''  FirewallRule foo bar'',
                ln ''  FirewallRule allow tcp port 80'', ln ''}''] (booted\<lparr>linenum := 0\<rparr>)
     = Inr (booted\<lparr>linenum := 3, errlog := [Invalid_rule_type ''foo''],
              rulesets := [\<lparr>name = ''lan'',
                rules = [\<lparr>target = TARGET_ACCEPT, protocol = Some ''tcp'',
                          port = Some ''80'', mask_r = Some ''0.0.0.0/0''\<rparr>]\<rparr>]\<rparr>)"
    by (simp add: t k b del: parse_firewall_ruleset.simps)
  then have c: "config_read sample_dns sample_defaults
         (Some [ln ''FirewallRuleSet lan {'', ln ''  FirewallRule foo bar'',
                ln ''  FirewallRule allow tcp port 80'', ln ''}'']) booted
     = Inr (booted\<lparr>linenum := 3, errlog := [Invalid_rule_type ''foo''],
              rulesets := [\<lparr>name = ''lan'',
                rules = [\<lparr>target = TARGET_ACCEPT, protocol = Some ''tcp'',
                          port = Some ''80'', mask_r = Some ''0.0.0.0/0''\<rparr>]\<rparr>]\<rparr>)"
    by (simp add: config_read_def booted_fields del: config_read_loop.simps)
  from a c show ?thesis by (simp del: config_read_loop.simps)
qed

text \<open>
  Claim C2, amended. For a line inside a ruleset block whose first word is
  \<^verbatim>\<open>FirewallRule\<close> and whose rule violates the grammar, the rule parser returns one of the
  codes \<open>-1\<close>, \<open>-3\<close>, \<open>-4\<close> and logs its message; the block parser goes on with the next
  line, in a state that differs by the line counter and that message only, so the rulesets
  are as they were before the line.
\<close>

theorem rule_violation_skipped:
  assumes "CHR ''}'' \<notin> set line" and "end_at_eol (dropWhile isblank line) \<noteq> []"
    and "strcasecmp_eq (block_p1 line) ''firewallrule''"
    and "parse_rule (block_p2 line) = Inl (code, m)"
  shows "code \<in> {- 1, - 3, - 4}
       \<and> parse_firewall_rule ruleset (block_p2 line) st = (code, debug m st)
       \<and> parse_firewall_ruleset ruleset (line # fd) st =
           parse_firewall_ruleset ruleset fd (debug m (st\<lparr>linenum := linenum st + 1\<rparr>))
       \<and> rulesets (debug m (st\<lparr>linenum := linenum st + 1\<rparr>)) = rulesets st"
proof -
  have p: "parse_firewall_rule ruleset (block_p2 line) s = (code, debug m s)" for s
    using assms(4) by (simp add: parse_firewall_rule_def)
  from firewall_rule_line [OF assms(1-3), of ruleset fd st]
  have "parse_firewall_ruleset ruleset (line # fd) st =
           parse_firewall_ruleset ruleset fd (debug m (st\<lparr>linenum := linenum st + 1\<rparr>))"
    by (simp only: p snd_conv)
  with parse_rule_codes [OF assms(4)] p [of st] show ?thesis
    by (simp add: debug_def del: parse_firewall_ruleset.simps)
qed

theorem rule_violation_skipped_witness:
  "CHR ''}'' \<notin> set (ln ''  FirewallRule allow port abc'')
   \<and> end_at_eol (dropWhile isblank (ln ''  FirewallRule allow port abc'')) \<noteq> []
   \<and> strcasecmp_eq (block_p1 (ln ''  FirewallRule allow port abc'')) ''firewallrule''
   \<and> parse_rule (block_p2 (ln ''  FirewallRule allow port abc'')) = Inl (- 3, Invalid_port ''abc'')
   \<and> parse_firewall_ruleset ''lan''
        [ln ''  FirewallRule allow port abc'', ln ''  FirewallRule drop udp'', ln ''}'']
        (booted\<lparr>linenum := 1\<rparr>)
      = Inr ([], booted\<lparr>linenum := 3, errlog := [Invalid_port ''abc''],
              rulesets := [\<lparr>name = ''lan'',
                rules = [\<lparr>target = TARGET_DROP, protocol = Some ''udp'',
                          port = None, mask_r = Some ''0.0.0.0/0''\<rparr>]\<rparr>]\<rparr>)
   \<and> CHR ''}'' \<notin> set (ln ''  FirewallRule#foo bar'')
   \<and> end_at_eol (dropWhile isblank (ln ''  FirewallRule#foo bar'')) \<noteq> []
   \<and> strcasecmp_eq (block_p1 (ln ''  FirewallRule#foo bar'')) ''firewallrule''
   \<and> parse_rule (block_p2 (ln ''  FirewallRule#foo bar'')) = Inl (- 1, Invalid_rule_type ''foo'')
   \<and> parse_firewall_ruleset ''lan'' [ln ''  FirewallRule#foo bar'', ln ''}'']
        (booted\<lparr>linenum := 1\<rparr>)
      = Inr ([], booted\<lparr>linenum := 2, errlog := [Invalid_rule_type ''foo'']\<rparr>)"
proof -
  let ?line = "ln ''  FirewallRule allow port abc''"
  let ?hash = "ln ''  FirewallRule#foo bar''"
  have h1: "CHR ''}'' \<notin> set ?line" "CHR ''}'' \<notin> set ?hash" by (simp_all add: ln_def)
  have h2: "end_at_eol (dropWhile isblank ?line) \<noteq> []"
    "end_at_eol (dropWhile isblank ?hash) \<noteq> []"
    by (simp_all add: scan_defs char_defs)
  have h3: "strcasecmp_eq (block_p1 ?line) ''firewallrule''"
    "strcasecmp_eq (block_p1 ?hash) ''firewallrule''"
    by (simp_all add: scan_defs char_defs)
  have h4: "parse_rule (block_p2 ?line) = Inl (- 3, Invalid_port ''abc'')"
    by (simp add: block_eval)
  have h5: "parse_rule (block_p2 ?hash) = Inl (- 1, Invalid_rule_type ''foo'')"
    by (simp add: block_eval)
  have r: "parse_firewall_ruleset ''lan'' [ln ''  FirewallRule drop udp'', ln ''}'']
        (debug (Invalid_port ''abc'') (booted\<lparr>linenum := 2\<rparr>))
      = Inr ([], booted\<lparr>linenum := 3, errlog := [Invalid_port ''abc''],
              rulesets := [\<lparr>name = ''lan'',
                rules = [\<lparr>target = TARGET_DROP, protocol = Some ''udp'',
                          port = None, mask_r = Some ''0.0.0.0/0''\<rparr>]\<rparr>]\<rparr>)"
    by (simp add: block_eval booted_fields)
  have c: "parse_firewall_ruleset ''lan'' [ln ''}'']
        (debug (Invalid_rule_type ''foo'') (booted\<lparr>linenum := 2\<rparr>))
      = Inr ([], booted\<lparr>linenum := 2, errlog := [Invalid_rule_type ''foo'']\<rparr>)"
    by (simp add: ln_def debug_def booted_fields)
  from rule_violation_skipped [OF h1(1) h2(1) h3(1) h4, of "''lan''" "booted\<lparr>linenum := 1\<rparr>"
      "[ln ''  FirewallRule drop udp'', ln ''}'']"]
  have a: "parse_firewall_ruleset ''lan''
        [ln ''  FirewallRule allow port abc'', ln ''  FirewallRule drop udp'', ln ''}'']
        (booted\<lparr>linenum := 1\<rparr>)
      = parse_firewall_ruleset ''lan'' [ln ''  FirewallRule drop udp'', ln ''}'']
        (debug (Invalid_port ''abc'') (booted\<lparr>linenum := 2\<rparr>))"
    by (simp del: parse_firewall_ruleset.simps)
  from rule_violation_skipped [OF h1(2) h2(2) h3(2) h5, of "''lan''" "booted\<lparr>linenum := 1\<rparr>"
      "[ln ''}'']"]
  have b: "parse_firewall_ruleset ''lan'' [ln ''  FirewallRule#foo bar'', ln ''}'']
        (booted\<lparr>linenum := 1\<rparr>)
      = parse_firewall_ruleset ''lan'' [ln ''}'']
        (debug (Invalid_rule_type ''foo'') (booted\<lparr>linenum := 2\<rparr>))"
    by (simp del: parse_firewall_ruleset.simps)
  from a b r c h1 h2 h3 h4 h5 show ?thesis by (simp del: parse_firewall_ruleset.simps)
qed

subsection \<open>\<^verbatim>\<open>mark_auth_server_bad\<close>\<close>

text \<open>On a well-formed list of two servers or more, of which the argument is the head, the
  function sets \<^verbatim>\<open>tmp->next\<close> of the last node to the bad server and then back to
  \<^verbatim>\<open>NULL\<close>; the store ends as it was, the head of the list is the second node, and the bad
  server is in the list no more.\<close>

lemma serv_last_list:
  "serv_list h (Some a) (a # as) \<Longrightarrow>
   serv_last h a = Some (last (a # as)) \<and> next_serv (h (last (a # as))) = None"
proof (induction as arbitrary: a)
  case Nil
  then show ?case by (simp add: serv_last.simps)
next
  case (Cons b as)
  from Cons.prems have n: "next_serv (h a) = Some b" and l: "serv_list h (Some b) (b # as)"
    by simp_all
  from Cons.IH [OF l] n show ?case
    by (subst serv_last.simps) simp
qed

lemma mark_auth_server_bad_drops_head:
  assumes "serv_list (heap st) (auth_servers st) (a # b # as)"
  shows "mark_auth_server_bad (auth_servers st) st = Inr (st\<lparr>auth_servers := Some b\<rparr>)"
    and "serv_list (heap st) (Some b) (b # as)"
proof -
  define h where "h = heap st"
  define tmp where "tmp = last (a # b # as)"
  from assms have hd: "auth_servers st = Some a" and nx: "next_serv (h a) = Some b"
    and tl: "serv_list h (Some b) (b # as)"
    by (simp_all add: h_def)
  from tl show "serv_list (heap st) (Some b) (b # as)" by (simp add: h_def)
  from assms hd have "serv_list h (Some a) (a # b # as)" by (simp add: h_def)
  from serv_last_list [OF this]
  have last: "serv_last h a = Some tmp" and nl: "next_serv (h tmp) = None"
    by (simp_all only: tmp_def)
  from nx nl have ne: "tmp \<noteq> a" by auto
  have "(h tmp)\<lparr>next_serv := next_serv (h tmp)\<rparr> = h tmp" by simp
  with nl have same: "(h tmp)\<lparr>next_serv := None\<rparr> = h tmp" by simp
  have "mark_auth_server_bad (Some a) st = Inr (st\<lparr>auth_servers := Some b, heap := h\<rparr>)"
    using hd last nx ne ne [symmetric] same
    by (simp add: mark_auth_server_bad_def Let_def h_def [symmetric])
  then show "mark_auth_server_bad (auth_servers st) st = Inr (st\<lparr>auth_servers := Some b\<rparr>)"
    by (simp add: hd h_def)
qed

lemma auth_server_tokens:
  "top_p1 (ln ''AuthServer {'') = Some ''{''"
  "top_s (ln ''AuthServer {'') = ''AuthServer''"
  by (simp_all add: scan_defs)

lemma auth_server_keywords:
  "config_parse_token ''AuthServer'' st = (oAuthServer, st)"
  "config_parse_token ''Hostname'' st = (oServHostname, st)"
  by (simp_all add: config_parse_token_def keywords_tab_def char_defs)

lemma hostname_lines:
  "block_p1 (ln ''  Hostname a'') = ''Hostname''"
  "block_p2 (ln ''  Hostname a'') = ''a''"
  "block_p1 (ln ''  Hostname b'') = ''Hostname''"
  "block_p2 (ln ''  Hostname b'') = ''b''"
  "block_p1 (ln ''  Hostname c'') = ''Hostname''"
  "block_p2 (ln ''  Hostname c'') = ''c''"
  "end_at_eol (dropWhile isblank (ln ''  Hostname a'')) \<noteq> []"
  "end_at_eol (dropWhile isblank (ln ''  Hostname b'')) \<noteq> []"
  "end_at_eol (dropWhile isblank (ln ''  Hostname c'')) \<noteq> []"
  "CHR ''}'' \<notin> set (ln ''  Hostname a'')"
  "CHR ''}'' \<notin> set (ln ''  Hostname b'')"
  "CHR ''}'' \<notin> set (ln ''  Hostname c'')"
  "CHR ''}'' \<in> set (ln ''}'')"
  by (simp_all add: scan_defs char_defs)

lemma hostname_block:
  assumes "block_p1 l = ''Hostname''" and "end_at_eol (dropWhile isblank l) \<noteq> []"
    and "CHR ''}'' \<notin> set l"
  shows "parse_server_loop (l # ln ''}'' # fd) v st =
         Inr (fd, v\<lparr>host := Some (block_p2 l)\<rparr>, st\<lparr>linenum := linenum st + 1\<rparr>)"
  using assms by (simp add: auth_server_keywords hostname_lines server_option_def Let_def)

lemmas server_eval =
  config_read_def three_auth_servers_def auth_server_tokens auth_server_keywords
  parse_server_def hostname_block hostname_lines serv_defaults_def add_server_def
  safe_malloc_def append_serv_def booted_fields Let_def serv_last.simps new_serv_def
  zero_serv_def mark_auth_server_bad_def get_auth_server_def

text \<open>
  Claim C1. The claim is that marking the head of a list of two servers or more as bad
  leaves a list of the same entries, with the former head last. After the file with the three
  servers \<^verbatim>\<open>a\<close>, \<^verbatim>\<open>b\<close>, \<^verbatim>\<open>c\<close> has been read, the list of authentication servers is
  \<^verbatim>\<open>a\<close>, \<^verbatim>\<open>b\<close>, \<^verbatim>\<open>c\<close>; after \<^verbatim>\<open>mark_auth_server_bad(get_auth_server())\<close> it is \<^verbatim>\<open>b\<close>,
  \<^verbatim>\<open>c\<close>: the server \<^verbatim>\<open>a\<close> is lost, where the comment of the function says that it becomes
  the last one of the list.
\<close>

theorem mark_auth_server_bad_loses_head:
  "map_sum id (\<lambda>st. serv_hostnames 4 (heap st) (get_auth_server st))
     (config_read sample_dns sample_defaults (Some three_auth_servers) booted)
     = Inr [Some ''a'', Some ''b'', Some ''c'']
   \<and> map_sum id (\<lambda>st. serv_hostnames 4 (heap st) (get_auth_server st))
     (case config_read sample_dns sample_defaults (Some three_auth_servers) booted of
        Inl f \<Rightarrow> Inl f
      | Inr st \<Rightarrow> mark_auth_server_bad (get_auth_server st) st)
     = Inr [Some ''b'', Some ''c'']"
  by (simp add: server_eval eval_nat_numeral del: parse_server_loop.simps)

end
